theory Spec2Isabelle
  imports Complex_Main "HOL-Library.Code_Target_Nat"
begin

section \<open>Audio codec utility\<close>

text \<open>
  The codec functions of the voice session hook (\<open>float32ToPcmBase64\<close>,
  \<open>createSilentPcmBase64\<close>) and of the WAV converter (\<open>audioBufferToWav\<close>).
  A byte is a \<open>nat\<close> below 256; a sample is a \<open>real\<close> (every finite float32 value is one).
  On the path without resampling the source only compares, multiplies a float32 value by
  \<open>0x7fff\<close> or \<open>0x8000\<close> (exact in double precision) and truncates, so real arithmetic
  computes what the source computes there.
\<close>

subsection \<open>Browser primitives\<close>

text \<open>\<open>btoa\<close> of the browser: base64 with padding over a string of byte-valued characters.\<close>

definition b64char :: "nat \<Rightarrow> char" where
  "b64char i =
     (if i < 26 then char_of (65 + i)
      else if i < 52 then char_of (71 + i)
      else if i < 62 then char_of (i - 4)
      else if i = 62 then CHR ''+'' else CHR ''/'')"

fun btoa :: "nat list \<Rightarrow> string" where
  "btoa [] = []"
| "btoa [a] = [b64char (a div 4), b64char ((a mod 4) * 16), CHR ''='', CHR ''='']"
| "btoa [a, b] =
     [b64char (a div 4), b64char ((a mod 4) * 16 + b div 16), b64char ((b mod 16) * 4), CHR ''='']"
| "btoa (a # b # c # rest) =
     b64char (a div 4) # b64char ((a mod 4) * 16 + b div 16) #
     b64char ((b mod 16) * 4 + c div 64) # b64char (c mod 64) # btoa rest"

text \<open>\<open>atob\<close>, the inverse of \<open>btoa\<close>; \<open>None\<close> where the browser raises.\<close>

definition b64val :: "char \<Rightarrow> nat option" where
  "b64val ch =
     (let n = (of_char ch :: nat) in
      if 65 \<le> n \<and> n \<le> 90 then Some (n - 65)
      else if 97 \<le> n \<and> n \<le> 122 then Some (n - 71)
      else if 48 \<le> n \<and> n \<le> 57 then Some (n + 4)
      else if n = 43 then Some 62
      else if n = 47 then Some 63
      else None)"

fun atob :: "string \<Rightarrow> nat list option" where
  "atob [] = Some []"
| "atob (c1 # c2 # c3 # c4 # rest) =
     (if c4 = CHR ''='' then
        (if rest \<noteq> [] then None
         else if c3 = CHR ''='' then
           (case (b64val c1, b64val c2) of
              (Some v1, Some v2) \<Rightarrow> Some [v1 * 4 + v2 div 16]
            | _ \<Rightarrow> None)
         else
           (case (b64val c1, b64val c2, b64val c3) of
              (Some v1, Some v2, Some v3) \<Rightarrow>
                Some [v1 * 4 + v2 div 16, (v2 mod 16) * 16 + v3 div 4]
            | _ \<Rightarrow> None))
      else
        (case (b64val c1, b64val c2, b64val c3, b64val c4, atob rest) of
           (Some v1, Some v2, Some v3, Some v4, Some bs) \<Rightarrow>
             Some ([v1 * 4 + v2 div 16, (v2 mod 16) * 16 + v3 div 4, (v3 mod 4) * 64 + v4] @ bs)
         | _ \<Rightarrow> None))"
| "atob _ = None"

text \<open>
  Storing a number into an \<open>Int16Array\<close> element or with \<open>DataView.setInt16\<close>: truncate
  towards zero, reduce modulo \<open>2^16\<close>, read as two's complement.
\<close>

definition js_trunc :: "real \<Rightarrow> int" where
  "js_trunc x = (if x < 0 then \<lceil>x\<rceil> else \<lfloor>x\<rfloor>)"

definition toInt16 :: "real \<Rightarrow> int" where
  "toInt16 x = (let m = js_trunc x mod 65536 in if m \<ge> 32768 then m - 65536 else m)"

text \<open>The two bytes of a 16-bit element in little-endian order, as \<open>new Uint8Array(pcm.buffer)\<close>
  shows them on a little-endian host and as \<open>setInt16(_, _, true)\<close> writes them.\<close>

definition int16_le :: "int \<Rightarrow> nat list" where
  "int16_le n = (let u = nat (n mod 65536) in [u mod 256, u div 256])"

definition uint16_le :: "nat \<Rightarrow> nat list" where
  "uint16_le n = (let u = n mod 65536 in [u mod 256, u div 256])"

definition uint32_le :: "nat \<Rightarrow> nat list" where
  "uint32_le n =
     (let u = n mod 4294967296 in
      [u mod 256, (u div 256) mod 256, (u div 65536) mod 256, u div 16777216])"

text \<open>Readers of those layouts, as a standard decoder has them.\<close>

fun int16s_of_le :: "nat list \<Rightarrow> int list option" where
  "int16s_of_le [] = Some []"
| "int16s_of_le (lo # hi # rest) =
     (case int16s_of_le rest of
        None \<Rightarrow> None
      | Some ns \<Rightarrow>
          Some ((let u = int lo + 256 * int hi in if u \<ge> 32768 then u - 65536 else u) # ns))"
| "int16s_of_le _ = None"

definition uint16_of_le :: "nat list \<Rightarrow> nat" where
  "uint16_of_le bs = bs ! 0 + 256 * bs ! 1"

definition uint32_of_le :: "nat list \<Rightarrow> nat" where
  "uint32_of_le bs = bs ! 0 + 256 * bs ! 1 + 65536 * bs ! 2 + 16777216 * bs ! 3"

definition charCodes :: "string \<Rightarrow> nat list" where
  "charCodes str = map of_char str"

subsection \<open>float32ToPcmBase64\<close>

text \<open>\<open>xs[i] ?? 0\<close> on a typed array: an index outside the array reads \<open>undefined\<close>.\<close>

definition at_or_0 :: "real list \<Rightarrow> int \<Rightarrow> real" where
  "at_or_0 xs i = (if 0 \<le> i \<and> i < int (length xs) then xs ! nat i else 0)"

text \<open>
  The resampling loop. A rate is a \<open>nat\<close> (sample rates are positive integers) or absent.
  The interpolation is in exact arithmetic: the rounding of the division and of the store
  into the \<open>Float32Array\<close> is not modelled, and no statement below depends on this branch.
\<close>

definition resampled :: "real list \<Rightarrow> nat \<Rightarrow> nat \<Rightarrow> real list" where
  "resampled float32 targetRate sourceRate =
     (let ratio = real sourceRate / real targetRate;
          outLen = nat \<lfloor>real (length float32) / ratio\<rfloor>
      in map (\<lambda>i.
            let srcIdx = real i * ratio;
                lo = \<lfloor>srcIdx\<rfloor>;
                hi = min (lo + 1) (int (length float32) - 1);
                frac = srcIdx - of_int lo
            in at_or_0 float32 lo * (1 - frac) + at_or_0 float32 hi * frac)
          [0..<outLen])"

definition truthy_rate :: "nat option \<Rightarrow> bool" where
  "truthy_rate r = (case r of None \<Rightarrow> False | Some n \<Rightarrow> n \<noteq> 0)"

definition clamp1 :: "real \<Rightarrow> real" where
  "clamp1 x = max (- 1) (min 1 x)"

definition quantize :: "real \<Rightarrow> int" where
  "quantize x = (let s = clamp1 x in toInt16 (if s < 0 then s * 32768 else s * 32767))"

definition float32ToPcmBase64 :: "real list \<Rightarrow> nat option \<Rightarrow> nat option \<Rightarrow> string" where
  "float32ToPcmBase64 float32 targetRate sourceRate =
     (let samples =
            (if truthy_rate targetRate \<and> truthy_rate sourceRate \<and> targetRate \<noteq> sourceRate
             then resampled float32 (the targetRate) (the sourceRate)
             else float32);
          pcm = map quantize samples;
          bytes = concat (map int16_le pcm)
      in btoa bytes)"

definition createSilentPcmBase64 :: "nat \<Rightarrow> string" where
  "createSilentPcmBase64 numSamples = btoa (concat (map int16_le (replicate numSamples 0)))"

text \<open>A receiver of the chunk: base64 to bytes to 16-bit samples, and the inverse of the
  scaling that \<open>quantize\<close> applies.\<close>

definition pcmBase64_decode :: "string \<Rightarrow> int list option" where
  "pcmBase64_decode str = (case atob str of None \<Rightarrow> None | Some bs \<Rightarrow> int16s_of_le bs)"

definition dequantize :: "int \<Rightarrow> real" where
  "dequantize p = (if p < 0 then of_int p / 32768 else of_int p / 32767)"

subsection \<open>audioBufferToWav\<close>

text \<open>
  An \<open>AudioBuffer\<close>: it has at least one channel, its \<open>length\<close> is the number of
  frames of each channel, and its sample rate is a whole number of hertz.
\<close>

record audioBuffer =
  sampleRate :: nat
  channel0 :: "real list"
  moreChannels :: "real list list"

definition ab_length :: "audioBuffer \<Rightarrow> nat" where
  "ab_length b = length (channel0 b)"

definition numberOfChannels :: "audioBuffer \<Rightarrow> nat" where
  "numberOfChannels b = 1 + length (moreChannels b)"

definition writeString :: "string \<Rightarrow> nat list" where
  "writeString str = charCodes str"

text \<open>
  Arithmetic on JavaScript numbers: every operation returns its exact result rounded to
  the nearest IEEE 754 double, ties to even. \<open>binade a\<close> is the exponent \<open>e\<close> of the
  binade of a magnitude, \<open>2^e \<le> a < 2^(e+1)\<close>, from 1023 down to -1022 (the subnormals
  share the spacing of the lowest binade); the doubles of a binade are the multiples of
  \<open>2^(e-52)\<close>. Results beyond the largest double, which round to an infinity, do not
  arise from the sums and products of samples.
\<close>

definition pow2 :: "int \<Rightarrow> real" where
  "pow2 e = (if 0 \<le> e then 2 ^ nat e else 1 / 2 ^ nat (- e))"

fun binade_search :: "nat \<Rightarrow> int \<Rightarrow> real \<Rightarrow> int" where
  "binade_search 0 e a = e"
| "binade_search (Suc n) e a = (if pow2 e \<le> a then e else binade_search n (e - 1) a)"

definition binade :: "real \<Rightarrow> int" where
  "binade a = binade_search 2045 1023 a"

definition round_half_even :: "real \<Rightarrow> int" where
  "round_half_even y =
     (let f = \<lfloor>y\<rfloor>; d = y - of_int f
      in if d < 1 / 2 then f else if 1 / 2 < d then f + 1 else if even f then f else f + 1)"

definition round_double :: "real \<Rightarrow> real" where
  "round_double x =
     (let ulp = pow2 (binade \<bar>x\<bar> - 52) in of_int (round_half_even (x / ulp)) * ulp)"

text \<open>
  The sample of frame \<open>i\<close>. With a second channel it is \<open>(left[i] + right[i]) / 2\<close>, a
  sum and a division of doubles; a read outside a channel gives \<open>undefined\<close>, the
  arithmetic on it \<open>NaN\<close>, and \<open>setInt16\<close> stores \<open>NaN\<close> as 0. Without a second
  channel it is \<open>left[i]\<close>, a float32 value.
\<close>

definition mixed_sample :: "audioBuffer \<Rightarrow> nat \<Rightarrow> real option" where
  "mixed_sample b i =
     (let left = channel0 b in
      if numberOfChannels b > 1 then
        (let right = hd (moreChannels b) in
         if i < length right
         then Some (round_double (round_double (left ! i + right ! i) / 2))
         else None)
      else Some (left ! i))"

text \<open>
  \<open>s < 0 ? s * 0x8000 : s * 0x7fff\<close> on the clamped sample, stored by \<open>setInt16\<close>. The
  product is a product of doubles. Where the sample is a float32 value (one channel) the
  product is exact, and the quantization is that of \<open>float32ToPcmBase64\<close>.
\<close>

definition quantize_double :: "real \<Rightarrow> int" where
  "quantize_double x =
     (let s = clamp1 x
      in toInt16 (if s < 0 then round_double (s * 32768) else round_double (s * 32767)))"

definition wav_pcm :: "audioBuffer \<Rightarrow> nat \<Rightarrow> int" where
  "wav_pcm b i =
     (case mixed_sample b i of
        None \<Rightarrow> 0
      | Some mixed \<Rightarrow> if numberOfChannels b > 1 then quantize_double mixed else quantize mixed)"

definition audioBufferToWav :: "audioBuffer \<Rightarrow> nat list" where
  "audioBufferToWav b =
     (let numChannels = 1;
          format = 1;
          bitDepth = 16;
          bytesPerSample = bitDepth div 8;
          blockAlign = numChannels * bytesPerSample;
          byteRate = sampleRate b * blockAlign;
          dataSize = ab_length b * blockAlign
      in writeString ''RIFF'' @ uint32_le (36 + dataSize) @
         writeString ''WAVE'' @
         writeString ''fmt '' @ uint32_le 16 @
         uint16_le format @ uint16_le numChannels @
         uint32_le (sampleRate b) @ uint32_le byteRate @
         uint16_le blockAlign @ uint16_le bitDepth @
         writeString ''data'' @ uint32_le dataSize @
         concat (map (\<lambda>i. int16_le (wav_pcm b i)) [0..<ab_length b]))"

definition arrayBufferToBase64 :: "nat list \<Rightarrow> string" where
  "arrayBufferToBase64 buffer = btoa buffer"

text \<open>The reduction to mono as the specification words it: the mean of all channels of a
  frame, then the same quantization.\<close>

definition frame_mean :: "audioBuffer \<Rightarrow> nat \<Rightarrow> real" where
  "frame_mean b i =
     (let chans = channel0 b # moreChannels b
      in (\<Sum>c\<leftarrow>chans. c ! i) / real (length chans))"

definition wav_data_all_channels_mean :: "audioBuffer \<Rightarrow> nat list" where
  "wav_data_all_channels_mean b =
     concat (map (\<lambda>i. int16_le (quantize (frame_mean b i))) [0..<ab_length b])"

text \<open>The canonical header of a mono 16-bit PCM file of \<open>frames\<close> samples at \<open>rate\<close>, field
  by field: \<open>RIFF\<close>, the chunk size, \<open>WAVE\<close>, \<open>fmt \<close>, the size 16 of the format chunk,
  the format 1 (PCM), 1 channel, the sample rate, the byte rate, the block alignment 2,
  16 bits per sample, \<open>data\<close>, the size of the data.\<close>

definition canonical_wav_header :: "nat \<Rightarrow> nat \<Rightarrow> nat list" where
  "canonical_wav_header rate frames =
     [82, 73, 70, 70] @ uint32_le (36 + 2 * frames) @ [87, 65, 86, 69] @
     [102, 109, 116, 32] @ [16, 0, 0, 0] @ [1, 0] @ [1, 0] @
     uint32_le rate @ uint32_le (2 * rate) @ [2, 0] @ [16, 0] @
     [100, 97, 116, 97] @ uint32_le (2 * frames)"

text \<open>A buffer of one frame and three channels.\<close>

definition three_channels :: audioBuffer where
  "three_channels = \<lparr>sampleRate = 16000, channel0 = [1 / 2], moreChannels = [[1 / 2], [- 1]]\<rparr>"

text \<open>A buffer of one frame and two channels whose sum is not a double: \<open>-1\<close> and
  \<open>2^-60\<close>.\<close>

definition rounded_sum :: audioBuffer where
  "rounded_sum = \<lparr>sampleRate = 16000, channel0 = [- 1], moreChannels = [[1 / 2 ^ 60]]\<rparr>"

section \<open>Voice session hook\<close>

text \<open>
  The hook \<open>usePersonaplexSession\<close>: its React state, its refs and the handles it owns are
  the fields of one record, and every callback of the hook is a function from the record
  to the record. An \<open>async\<close> function is cut at each \<open>await\<close>: the part before it is
  one function, and what runs when the awaited promise settles is another (suffix
  \<open>_resolved\<close>, \<open>_rejected\<close>), taking the local variables it closes over as arguments.
  The requests the hook issues and the callbacks it is given append to logs in the record.
\<close>

subsection \<open>Strings\<close>

text \<open>A character is a code unit below 256; of these \<open>String.prototype.trim\<close> strips
  U+0009 to U+000D, U+0020 and U+00A0.\<close>

definition is_ws :: "char \<Rightarrow> bool" where
  "is_ws ch = ((of_char ch :: nat) \<in> {9, 10, 11, 12, 13, 32, 160})"

definition trim :: "string \<Rightarrow> string" where
  "trim str = rev (dropWhile is_ws (rev (dropWhile is_ws str)))"

fun join :: "string \<Rightarrow> string list \<Rightarrow> string" where
  "join sep [] = []"
| "join sep [x] = x"
| "join sep (x # y # ys) = x @ sep @ join sep (y # ys)"

subsection \<open>State\<close>

datatype PersonaplexConnectionStatus = Disconnected | Connecting | Connected | Error

datatype role = User | Ai

type_synonym transcript_entry = "role \<times> string"

datatype readyState = CONNECTING | OPEN | CLOSING | CLOSED

datatype timer_callback = PendingManualCommitTimeout | StartRecordingTimeout

record input_audio_chunk =
  audio_base_64 :: string
  sample_rate :: nat
  commit :: bool

text \<open>A message of the transcription socket after \<open>JSON.parse\<close>: \<open>Unparseable\<close> where the
  parse or the first field access throws; a field is \<open>None\<close> where it is absent or (for
  \<open>text\<close>) not a string.\<close>

datatype ws_data =
  Unparseable
| Message (message_type: "string option") (msg_text: "string option") (msg_error: "string option")

record session =
  \<comment> \<open>props\<close>
  systemPrompt :: string
  selectedVoiceId :: string
  manualMode :: bool
  \<comment> \<open>React state\<close>
  status :: PersonaplexConnectionStatus
  errorMessage :: "string option"
  isUserSpeaking :: bool
  isAiSpeaking :: bool
  \<comment> \<open>refs to handles: \<open>True\<close> where the ref holds one\<close>
  streamRef :: bool
  wsRef :: "readyState option"
  audioContextRef :: bool
  playbackContextRef :: bool
  processorRef :: bool
  sourceRef :: bool
  currentAudioRef :: bool
  currentPlaybackSourceRef :: bool
  \<comment> \<open>refs to values\<close>
  transcriptRef :: "transcript_entry list"
  isProcessingRef :: bool
  isListeningRef :: bool
  startRecordingTimeoutRef :: "nat option"
  isAiSpeakingRef :: bool
  targetRateRef :: nat
  manualBufferRef :: "string list"
  pendingManualCommitRef :: bool
  pendingManualCommitTimeoutRef :: "nat option"
  \<comment> \<open>the timers of the event loop that are scheduled and have not fired\<close>
  timers :: "(nat \<times> timer_callback) list"
  nextTimerId :: nat
  \<comment> \<open>what the hook has called so far\<close>
  shownTranscript :: "transcript_entry list"
  interimTranscript :: string
  interviewerRequests :: "(string \<times> transcript_entry list) list"
  voiceRequests :: "(string \<times> string) list"
  wsSent :: "input_audio_chunk list"
  startCalls :: nat

definition initial_session :: "string \<Rightarrow> string \<Rightarrow> bool \<Rightarrow> session" where
  "initial_session prompt voiceId manual =
     \<lparr> systemPrompt = prompt, selectedVoiceId = voiceId, manualMode = manual,
       status = Disconnected, errorMessage = None, isUserSpeaking = False, isAiSpeaking = False,
       streamRef = False, wsRef = None, audioContextRef = False, playbackContextRef = False,
       processorRef = False, sourceRef = False, currentAudioRef = False,
       currentPlaybackSourceRef = False,
       transcriptRef = [], isProcessingRef = False, isListeningRef = False,
       startRecordingTimeoutRef = None, isAiSpeakingRef = False, targetRateRef = 16000,
       manualBufferRef = [], pendingManualCommitRef = False,
       pendingManualCommitTimeoutRef = None,
       timers = [], nextTimerId = 1,
       shownTranscript = [], interimTranscript = [], interviewerRequests = [],
       voiceRequests = [], wsSent = [], startCalls = 0 \<rparr>"

subsection \<open>Setters and timers\<close>

definition setErrorMessage :: "session \<Rightarrow> string option \<Rightarrow> session" where
  "setErrorMessage s m = s\<lparr>errorMessage := m\<rparr>"

definition setStatus :: "session \<Rightarrow> PersonaplexConnectionStatus \<Rightarrow> session" where
  "setStatus s st = s\<lparr>status := st\<rparr>"

definition onInterimTranscript :: "session \<Rightarrow> string \<Rightarrow> session" where
  "onInterimTranscript s t = s\<lparr>interimTranscript := t\<rparr>"

definition onTranscriptUpdate :: "session \<Rightarrow> transcript_entry list \<Rightarrow> session" where
  "onTranscriptUpdate s t = s\<lparr>shownTranscript := t\<rparr>"

text \<open>\<open>setTimeout\<close> returns a fresh identifier, which is positive and so truthy;
  \<open>clearTimeout\<close> removes the timer from those scheduled.\<close>

definition setTimeout :: "session \<Rightarrow> timer_callback \<Rightarrow> session \<times> nat" where
  "setTimeout s cb =
     (s\<lparr>timers := timers s @ [(nextTimerId s, cb)], nextTimerId := Suc (nextTimerId s)\<rparr>,
      nextTimerId s)"

definition clearTimeout :: "session \<Rightarrow> nat \<Rightarrow> session" where
  "clearTimeout s tid = s\<lparr>timers := filter (\<lambda>t. fst t \<noteq> tid) (timers s)\<rparr>"

subsection \<open>stopRecording, startRecording\<close>

definition stopRecording :: "session \<Rightarrow> session" where
  "stopRecording s =
     (let s1 = (if wsRef s = Some OPEN then s\<lparr>wsRef := None\<rparr> else s)
      in s1\<lparr>processorRef := False, sourceRef := False, streamRef := False,
             audioContextRef := False, isListeningRef := False\<rparr>)"

text \<open>\<open>startRecording\<close> up to the first \<open>await\<close> of its inner \<open>start\<close>: the guard, and
  the request for the microphone.\<close>

definition startRecording :: "session \<Rightarrow> session" where
  "startRecording s =
     (if isProcessingRef s \<or> isListeningRef s then s
      else s\<lparr>startCalls := Suc (startCalls s)\<rparr>)"

text \<open>\<open>start\<close> after \<open>getUserMedia\<close> resolved, after \<open>fetchScribeToken\<close> resolved (the
  socket is created and is connecting), and its \<open>catch\<close>; the argument of the latter is the
  message of the error, absent where the thrown value is not an \<open>Error\<close>.\<close>

definition start_gotUserMedia :: "session \<Rightarrow> session" where
  "start_gotUserMedia s = s\<lparr>streamRef := True, audioContextRef := True\<rparr>"

definition start_gotScribeToken :: "session \<Rightarrow> session" where
  "start_gotScribeToken s = s\<lparr>targetRateRef := 16000, wsRef := Some CONNECTING\<rparr>"

definition start_rejected :: "session \<Rightarrow> string option \<Rightarrow> session" where
  "start_rejected s err =
     setStatus
       (setErrorMessage s
          (Some (case err of Some m \<Rightarrow> m | None \<Rightarrow> ''Could not start live transcription'')))
       Error"

subsection \<open>Speaking\<close>

definition startRecordingAfterAI :: "session \<Rightarrow> session" where
  "startRecordingAfterAI s =
     (let (s1, tid) = setTimeout s StartRecordingTimeout
      in s1\<lparr>startRecordingTimeoutRef := Some tid\<rparr>)"

definition startRecordingAfterAI_timeout :: "session \<Rightarrow> session" where
  "startRecordingAfterAI_timeout s = startRecording (s\<lparr>startRecordingTimeoutRef := None\<rparr>)"

text \<open>The closure \<open>done\<close> of \<open>speakWithVoiceApi\<close>.\<close>

definition speakWithVoiceApi_done :: "(session \<Rightarrow> session) \<Rightarrow> session \<Rightarrow> session" where
  "speakWithVoiceApi_done onDone s = onDone (s\<lparr>isAiSpeakingRef := False, isAiSpeaking := False\<rparr>)"

text \<open>\<open>speakWithVoiceApi\<close> up to the call of \<open>fetchVoiceAudio\<close>.\<close>

definition speakWithVoiceApi ::
  "session \<Rightarrow> string \<Rightarrow> (session \<Rightarrow> session) \<Rightarrow> (session \<Rightarrow> string option \<Rightarrow> session) \<Rightarrow> session" where
  "speakWithVoiceApi s text onDone setError =
     (if trim text = [] then onDone s
      else
        (let s1 = s\<lparr>isAiSpeakingRef := True, isAiSpeaking := True\<rparr>;
             s2 = setError s1 None
         in s2\<lparr>voiceRequests := voiceRequests s2 @ [(text, selectedVoiceId s2)]\<rparr>))"

text \<open>
  The \<open>then\<close> of \<open>fetchVoiceAudio\<close>: playback starts through Web Audio when the device is
  not iOS, a playback context exists and decoding succeeds, and through an audio element
  otherwise. Then the end of either playback, the failure of the element, and the
  \<open>catch\<close> of the request.
\<close>

definition speakWithVoiceApi_then :: "session \<Rightarrow> bool \<Rightarrow> bool \<Rightarrow> session" where
  "speakWithVoiceApi_then s isIOS webAudioFails =
     (if \<not> isIOS \<and> playbackContextRef s \<and> \<not> webAudioFails
      then s\<lparr>currentPlaybackSourceRef := True\<rparr>
      else s\<lparr>currentAudioRef := True\<rparr>)"

definition source_onended :: "(session \<Rightarrow> session) \<Rightarrow> session \<Rightarrow> session" where
  "source_onended onDone s = speakWithVoiceApi_done onDone (s\<lparr>currentPlaybackSourceRef := False\<rparr>)"

definition audioEl_onended :: "(session \<Rightarrow> session) \<Rightarrow> session \<Rightarrow> session" where
  "audioEl_onended onDone s = speakWithVoiceApi_done onDone (s\<lparr>currentAudioRef := False\<rparr>)"

definition audioEl_onerror ::
  "(session \<Rightarrow> session) \<Rightarrow> (session \<Rightarrow> string option \<Rightarrow> session) \<Rightarrow> session \<Rightarrow> session" where
  "audioEl_onerror onDone setError s =
     speakWithVoiceApi_done onDone
       (setError (s\<lparr>currentAudioRef := False\<rparr>) (Some ''Audio playback failed''))"

definition speakWithVoiceApi_catch ::
  "(session \<Rightarrow> session) \<Rightarrow> (session \<Rightarrow> string option \<Rightarrow> session) \<Rightarrow> session \<Rightarrow> string option \<Rightarrow> session" where
  "speakWithVoiceApi_catch onDone setError s err =
     speakWithVoiceApi_done onDone
       (setError s (Some (case err of Some m \<Rightarrow> m | None \<Rightarrow> ''Voice API failed'')))"

definition speak :: "session \<Rightarrow> string \<Rightarrow> session" where
  "speak s text =
     (if trim text = [] then startRecording s
      else
        speakWithVoiceApi (s\<lparr>currentAudioRef := False, currentPlaybackSourceRef := False\<rparr>)
          text startRecordingAfterAI setErrorMessage)"

subsection \<open>processUserInput\<close>

text \<open>Up to the \<open>await\<close> of \<open>fetchInterviewerQuestion\<close>.\<close>

definition processUserInput :: "session \<Rightarrow> string \<Rightarrow> session" where
  "processUserInput s userText =
     (if isProcessingRef s \<or> trim userText = [] then s
      else
        (let s1 = stopRecording (s\<lparr>isProcessingRef := True\<rparr>);
             nextWithUser = transcriptRef s1 @ [(User, userText)];
             s2 = onTranscriptUpdate (s1\<lparr>transcriptRef := nextWithUser\<rparr>) nextWithUser;
             s3 = onInterimTranscript s2 []
         in s3\<lparr>interviewerRequests := interviewerRequests s3 @ [(systemPrompt s3, nextWithUser)]\<rparr>))"

text \<open>The request resolved with a question: the reply is appended, \<open>speak\<close> is called and
  returns, and \<open>finally\<close> runs.\<close>

definition processUserInput_resolved :: "session \<Rightarrow> transcript_entry list \<Rightarrow> string \<Rightarrow> session" where
  "processUserInput_resolved s nextWithUser question =
     (let nextWithAi = nextWithUser @ [(Ai, question)];
          s1 = onTranscriptUpdate (s\<lparr>transcriptRef := nextWithAi\<rparr>) nextWithAi;
          s2 = speak s1 question
      in s2\<lparr>isProcessingRef := False\<rparr>)"

text \<open>The request rejected: \<open>catch\<close>, then \<open>finally\<close>.\<close>

definition processUserInput_rejected :: "session \<Rightarrow> string option \<Rightarrow> session" where
  "processUserInput_rejected s err =
     (let s1 = setErrorMessage s (Some (case err of Some m \<Rightarrow> m | None \<Rightarrow> ''API error''));
          s2 = setStatus s1 Error;
          s3 = s2\<lparr>isProcessingRef := False\<rparr>
      in s3\<lparr>isProcessingRef := False\<rparr>)"

subsection \<open>The transcription socket\<close>

definition ws_onerror :: "session \<Rightarrow> session" where
  "ws_onerror s =
     setStatus (setErrorMessage s (Some ''Live transcription connection failed'')) Error"

definition ws_onclose :: "session \<Rightarrow> session" where
  "ws_onclose s = s\<lparr>wsRef := None\<rparr>"

definition ws_onmessage :: "session \<Rightarrow> ws_data \<Rightarrow> session" where
  "ws_onmessage s d =
     (case d of
        Unparseable \<Rightarrow> s
      | Message type mtext merr \<Rightarrow>
          (if type = Some ''partial_transcript'' \<and> mtext \<noteq> None then
             (if manualMode s \<and> manualBufferRef s \<noteq> []
              then onInterimTranscript s (join '' '' (manualBufferRef s) @ '' '' @ the mtext)
              else onInterimTranscript s (the mtext))
           else if type = Some ''committed_transcript'' \<and> mtext \<noteq> None then
             (let text = trim (the mtext) in
              if text \<noteq> [] then
                (if isAiSpeakingRef s then s
                 else if manualMode s then
                   (let s1 = s\<lparr>manualBufferRef := manualBufferRef s @ [text]\<rparr> in
                    if pendingManualCommitRef s1 then
                      (let s2 = (case pendingManualCommitTimeoutRef s1 of
                                   None \<Rightarrow> s1
                                 | Some tid \<Rightarrow>
                                     (clearTimeout s1 tid)\<lparr>pendingManualCommitTimeoutRef := None\<rparr>);
                           fullText = trim (join '' '' (manualBufferRef s2));
                           s3 = stopRecording
                                  (s2\<lparr>manualBufferRef := [], pendingManualCommitRef := False\<rparr>)
                       in if fullText \<noteq> [] then processUserInput s3 fullText else s3)
                    else onInterimTranscript s1 (join '' '' (manualBufferRef s1)))
                 else processUserInput (stopRecording s) text)
              else s)
           else if type = Some ''error'' \<or> type = Some ''auth_error'' \<or> type = Some ''quota_exceeded'' then
             (let err = (case merr of Some e \<Rightarrow> e | None \<Rightarrow> ''Transcription error'')
              in startRecording (stopRecording (setErrorMessage s (Some err))))
           else s))"

text \<open>\<open>ws.onopen\<close>: the socket is open; \<open>micOk\<close> is false where wiring the microphone into
  the audio graph throws.\<close>

definition ws_onopen :: "session \<Rightarrow> bool \<Rightarrow> session" where
  "ws_onopen s micOk =
     (let s0 = (if wsRef s = Some CONNECTING then s\<lparr>wsRef := Some OPEN\<rparr> else s);
          s1 = setErrorMessage s0 None
      in if micOk then
           (let s2 = s1\<lparr>sourceRef := True, processorRef := True, isListeningRef := True,
                        isUserSpeaking := True\<rparr>;
                s3 = (if manualMode s2 then s2\<lparr>manualBufferRef := []\<rparr> else s2)
            in onInterimTranscript s3 ''Listening...'')
         else
           (let s2 = setStatus
                       (setErrorMessage s1 (Some ''Microphone access denied or unavailable''))
                       Error
            in if wsRef s2 = Some OPEN then s2\<lparr>wsRef := Some CLOSING\<rparr> else s2))"

definition onaudioprocess :: "session \<Rightarrow> real list \<Rightarrow> nat \<Rightarrow> session" where
  "onaudioprocess s input sourceRate =
     (if wsRef s \<noteq> Some OPEN then s
      else s\<lparr>wsSent := wsSent s @
             [\<lparr>audio_base_64 = float32ToPcmBase64 input (Some 16000) (Some sourceRate),
               sample_rate = 16000, commit = False\<rparr>]\<rparr>)"

subsection \<open>commitManual\<close>

definition commitManual :: "session \<Rightarrow> session" where
  "commitManual s =
     (if wsRef s \<noteq> Some OPEN \<or> \<not> isListeningRef s then s
      else if isAiSpeakingRef s then s
      else
        (let s1 = s\<lparr>pendingManualCommitRef := True\<rparr>;
             rate = targetRateRef s1;
             silentChunk = createSilentPcmBase64 1024;
             s2 = s1\<lparr>wsSent := wsSent s1 @
                    [\<lparr>audio_base_64 = silentChunk, sample_rate = rate, commit = True\<rparr>]\<rparr>;
             (s3, tid) = setTimeout s2 PendingManualCommitTimeout
         in s3\<lparr>pendingManualCommitTimeoutRef := Some tid\<rparr>))"

text \<open>The callback of the 1500 ms timer that \<open>commitManual\<close> sets.\<close>

definition commitManual_timeout :: "session \<Rightarrow> session" where
  "commitManual_timeout s =
     (let s1 = s\<lparr>pendingManualCommitTimeoutRef := None\<rparr> in
      if pendingManualCommitRef s1 \<and> manualBufferRef s1 \<noteq> [] then
        (let s2 = s1\<lparr>pendingManualCommitRef := False\<rparr>;
             fullText = trim (join '' '' (manualBufferRef s2));
             s3 = stopRecording (s2\<lparr>manualBufferRef := []\<rparr>)
         in if fullText \<noteq> [] then processUserInput s3 fullText else s3)
      else s1)"

text \<open>The event loop fires a scheduled timer: it leaves the schedule and its callback runs.
  A timer that was cleared, or never set, does not fire.\<close>

definition fire_timer :: "session \<Rightarrow> nat \<Rightarrow> session" where
  "fire_timer s tid =
     (case map_of (timers s) tid of
        None \<Rightarrow> s
      | Some cb \<Rightarrow>
          (let s1 = s\<lparr>timers := filter (\<lambda>t. fst t \<noteq> tid) (timers s)\<rparr>
           in case cb of
                PendingManualCommitTimeout \<Rightarrow> commitManual_timeout s1
              | StartRecordingTimeout \<Rightarrow> startRecordingAfterAI_timeout s1))"

subsection \<open>connect, disconnect\<close>

definition connect :: "session \<Rightarrow> session" where
  "connect s =
     (let s1 = setStatus s Connecting;
          s2 = setErrorMessage s1 None;
          s3 = s2\<lparr>transcriptRef := [], playbackContextRef := True\<rparr>;
          s4 = setStatus s3 Connected
      in speak s4 ''Hello, I am your OpenJournal assistant. How can I help you?'')"

definition disconnect :: "session \<Rightarrow> session" where
  "disconnect s =
     (let s1 = (case pendingManualCommitTimeoutRef s of
                  None \<Rightarrow> s
                | Some tid \<Rightarrow> (clearTimeout s tid)\<lparr>pendingManualCommitTimeoutRef := None\<rparr>);
          s2 = (case startRecordingTimeoutRef s1 of
                  None \<Rightarrow> s1
                | Some tid \<Rightarrow> (clearTimeout s1 tid)\<lparr>startRecordingTimeoutRef := None\<rparr>);
          s3 = s2\<lparr>currentAudioRef := False, currentPlaybackSourceRef := False,
                   playbackContextRef := False\<rparr>;
          s4 = stopRecording s3;
          s5 = setErrorMessage (setStatus s4 Disconnected) None
      in s5\<lparr>isUserSpeaking := False, isAiSpeaking := False, isAiSpeakingRef := False,
             isProcessingRef := False, isListeningRef := False, manualBufferRef := [],
             pendingManualCommitRef := False\<rparr>)"

text \<open>A finalize event handed to the turn pipeline several times in a row.\<close>

definition finalize_all :: "session \<Rightarrow> string list \<Rightarrow> session" where
  "finalize_all s texts = foldl processUserInput s texts"

subsection \<open>Events\<close>

text \<open>
  Everything that can run on the event loop of the session, as one type, and the callback
  each event runs. The completion callback and the error setter of \<open>speakWithVoiceApi\<close> are
  those that \<open>speak\<close>, its only caller, passes.
\<close>

datatype event =
  Connect
| Disconnect
| CommitManual
| WsMessage ws_data
| WsOpen bool
| WsError
| WsClose
| AudioProcess "real list" nat
| TimerFires nat
| GotUserMedia
| GotScribeToken
| StartRejected "string option"
| InterviewerResolved "transcript_entry list" string
| InterviewerRejected "string option"
| VoiceResolved bool bool
| VoiceRejected "string option"
| SourceEnded
| AudioEnded
| AudioError

fun step :: "session \<Rightarrow> event \<Rightarrow> session" where
  "step s Connect = connect s"
| "step s Disconnect = disconnect s"
| "step s CommitManual = commitManual s"
| "step s (WsMessage d) = ws_onmessage s d"
| "step s (WsOpen micOk) = ws_onopen s micOk"
| "step s WsError = ws_onerror s"
| "step s WsClose = ws_onclose s"
| "step s (AudioProcess input sourceRate) = onaudioprocess s input sourceRate"
| "step s (TimerFires tid) = fire_timer s tid"
| "step s GotUserMedia = start_gotUserMedia s"
| "step s GotScribeToken = start_gotScribeToken s"
| "step s (StartRejected err) = start_rejected s err"
| "step s (InterviewerResolved nextWithUser question) =
     processUserInput_resolved s nextWithUser question"
| "step s (InterviewerRejected err) = processUserInput_rejected s err"
| "step s (VoiceResolved isIOS webAudioFails) = speakWithVoiceApi_then s isIOS webAudioFails"
| "step s (VoiceRejected err) =
     speakWithVoiceApi_catch startRecordingAfterAI setErrorMessage s err"
| "step s SourceEnded = source_onended startRecordingAfterAI s"
| "step s AudioEnded = audioEl_onended startRecordingAfterAI s"
| "step s AudioError = audioEl_onerror startRecordingAfterAI setErrorMessage s"

definition run :: "session \<Rightarrow> event list \<Rightarrow> session" where
  "run s es = foldl step s es"

text \<open>The events that end the wait for the interviewer's reply, and \<open>disconnect\<close>.\<close>

fun ends_processing :: "event \<Rightarrow> bool" where
  "ends_processing (InterviewerResolved n q) = True"
| "ends_processing (InterviewerRejected err) = True"
| "ends_processing Disconnect = True"
| "ends_processing e = False"

text \<open>The events that end the assistant's speech: the request for the audio failed, the
  playback ended or failed, and \<open>disconnect\<close>.\<close>

fun ends_speaking :: "event \<Rightarrow> bool" where
  "ends_speaking (VoiceRejected err) = True"
| "ends_speaking SourceEnded = True"
| "ends_speaking AudioEnded = True"
| "ends_speaking AudioError = True"
| "ends_speaking Disconnect = True"
| "ends_speaking e = False"

text \<open>The identifiers of the scheduled timers are below the next identifier.\<close>

definition timers_fresh :: "session \<Rightarrow> bool" where
  "timers_fresh s = list_all (\<lambda>t. fst t < nextTimerId s) (timers s)"

text \<open>A fragment as the socket handler buffers it: trimmed and not empty.\<close>

definition fragment :: "string \<Rightarrow> bool" where
  "fragment f = (f \<noteq> [] \<and> trim f = f)"

text \<open>What holds of every session that events lead to: the state and the ref of the
  speaking flag agree, the manual buffer holds fragments, and the scheduled timers have
  identifiers that were issued.\<close>

definition session_inv :: "session \<Rightarrow> bool" where
  "session_inv s =
     (isAiSpeaking s = isAiSpeakingRef s \<and> list_all fragment (manualBufferRef s) \<and> timers_fresh s)"

text \<open>
  A session in automatic (VAD) mode that has connected, played its greeting through Web
  Audio, waited out the listening delay and opened the microphone and the socket; the same
  in manual mode.
\<close>

definition listening_events :: "event list" where
  "listening_events =
     [Connect, VoiceResolved False False, SourceEnded, TimerFires 1,
      GotUserMedia, GotScribeToken, WsOpen True]"

definition listening_vad :: session where
  "listening_vad = run (initial_session ''Be kind.'' ''21m00Tcm4TlvDq8ikWAM'' False) listening_events"

definition listening_manual :: session where
  "listening_manual = run (initial_session ''Be kind.'' ''21m00Tcm4TlvDq8ikWAM'' True) listening_events"

text \<open>The greeting is being synthesized; a turn of the automatic session whose reply has
  arrived and is being synthesized; a manual session with one fragment buffered, and the
  same with a commit requested.\<close>

definition greeting_playing :: session where
  "greeting_playing = run (initial_session ''Be kind.'' ''21m00Tcm4TlvDq8ikWAM'' False) [Connect]"

definition reply_playing :: session where
  "reply_playing =
     run listening_vad
       [WsMessage (Message (Some ''committed_transcript'') (Some ''I had a hard day'') None),
        InterviewerResolved [(User, ''I had a hard day'')] ''What made it hard?'']"

definition fragment_buffered :: session where
  "fragment_buffered =
     run listening_manual
       [WsMessage (Message (Some ''committed_transcript'') (Some ''I had '') None)]"

definition commit_pending :: session where
  "commit_pending = run fragment_buffered [CommitManual]"

text \<open>The automatic session just after a turn was finalized, waiting for the interviewer.\<close>

definition turn_processing :: session where
  "turn_processing = processUserInput listening_vad ''I had a hard day''"

text \<open>The synthesis of the reply fails. The transcription socket reports that the quota
  is exceeded, the session listens again, and the socket reports the same again.\<close>

definition voice_failed :: session where
  "voice_failed = run reply_playing [VoiceRejected (Some ''Voice API failed (500)'')]"

definition quota_exceeded_twice :: session where
  "quota_exceeded_twice =
     run listening_vad
       [WsMessage (Message (Some ''quota_exceeded'') None (Some ''Quota exceeded'')),
        GotUserMedia, GotScribeToken, WsOpen True,
        WsMessage (Message (Some ''quota_exceeded'') None (Some ''Quota exceeded''))]"

text \<open>
  A manual session that listens while a turn is in process: with a commit pending the
  socket reports an error and the session asks for the microphone again; the commit timer
  fires and finalizes the buffered fragment; then the microphone and the socket open.
  In it a commit is requested and acknowledged.
\<close>

definition busy_listening :: session where
  "busy_listening =
     run commit_pending
       [WsMessage (Message (Some ''auth_error'') None None), TimerFires 2,
        GotUserMedia, GotScribeToken, WsOpen True]"

definition ack_while_busy :: session where
  "ack_while_busy =
     run busy_listening
       [CommitManual,
        WsMessage (Message (Some ''committed_transcript'') (Some ''and then it rained'') None)]"



section \<open>Backend endpoints\<close>

text \<open>
  The six handlers under \<open>api/\<close>. Each reads its credential from the environment first.
  For five of them the handler is modelled up to that check, and what it does with a
  credential (parsing the request, the upstream call, mapping the upstream response) is
  the argument \<open>withKey\<close>; \<open>/api/voices\<close> is modelled whole, its upstream call being the
  argument \<open>upstream\<close>.
\<close>

record env =
  OPENROUTER_API_KEY :: "string option"
  ELEVENLABS_API_KEY :: "string option"

datatype body =
  ErrorBody string
| QuestionBody string
| AudioBody string string
| TextBody string
| TokenBody string
| VoicesBody "(string \<times> string) list"

record response =
  status_code :: nat
  body :: body

definition jsonResponse :: "body \<Rightarrow> nat \<Rightarrow> response" where
  "jsonResponse b st = \<lparr>status_code = st, body = b\<rparr>"

text \<open>\<open>!apiKey\<close> is false: the variable is set and not the empty string.\<close>

definition configured :: "string option \<Rightarrow> bool" where
  "configured k = (case k of None \<Rightarrow> False | Some v \<Rightarrow> v \<noteq> [])"

definition interviewer_POST :: "env \<Rightarrow> (string \<Rightarrow> response) \<Rightarrow> response" where
  "interviewer_POST e withKey =
     (let apiKey = OPENROUTER_API_KEY e in
      if \<not> configured apiKey
      then jsonResponse (ErrorBody ''OPENROUTER_API_KEY is not configured'') 500
      else withKey (the apiKey))"

definition reformat_POST :: "env \<Rightarrow> (string \<Rightarrow> response) \<Rightarrow> response" where
  "reformat_POST e withKey =
     (let apiKey = OPENROUTER_API_KEY e in
      if \<not> configured apiKey
      then \<lparr>status_code = 500, body = ErrorBody ''OPENROUTER_API_KEY is not configured''\<rparr>
      else withKey (the apiKey))"

definition voice_POST :: "env \<Rightarrow> (string \<Rightarrow> response) \<Rightarrow> response" where
  "voice_POST e withKey =
     (let apiKey = ELEVENLABS_API_KEY e in
      if \<not> configured apiKey
      then jsonResponse (ErrorBody ''ELEVENLABS_API_KEY is not configured'') 500
      else withKey (the apiKey))"

definition transcribe_POST :: "env \<Rightarrow> (string \<Rightarrow> response) \<Rightarrow> response" where
  "transcribe_POST e withKey =
     (let apiKey = ELEVENLABS_API_KEY e in
      if \<not> configured apiKey
      then jsonResponse (ErrorBody ''ELEVENLABS_API_KEY is not configured'') 500
      else withKey (the apiKey))"

definition scribe_token_GET :: "env \<Rightarrow> (string \<Rightarrow> response) \<Rightarrow> response" where
  "scribe_token_GET e withKey =
     (let apiKey = ELEVENLABS_API_KEY e in
      if \<not> configured apiKey
      then jsonResponse (ErrorBody ''ELEVENLABS_API_KEY is not configured'') 500
      else withKey (the apiKey))"

text \<open>\<open>/api/voices\<close>. A voice of the upstream list has \<open>voice_id\<close> or \<open>id\<close> or neither.\<close>

definition FALLBACK_VOICES :: "(string \<times> string) list" where
  "FALLBACK_VOICES =
     [(''21m00Tcm4TlvDq8ikWAM'', ''Rachel''),
      (''pNInz6obpgDQGcFmaJgB'', ''Adam''),
      (''EXAVITQu4vr4xnSDxMaL'', ''Bella''),
      (''ErXwobaYiN019PkySvjV'', ''Antoni''),
      (''MF3mGyEYCl7XYWbV9V6O'', ''Elli''),
      (''TxGEqnHWrfWFTfGW9XjX'', ''Josh''),
      (''VR6AewLTigWG4xSOukaG'', ''Arnold''),
      (''onwK4e9ZLuTAKqWW03F9'', ''Domi''),
      (''N2lVS1w4EtoT3dr4eOWO'', ''Sam'')]"

record raw_voice =
  rv_voice_id :: "string option"
  rv_id :: "string option"
  rv_name :: string

datatype voices_upstream =
  FetchThrows
| NotOk
| JsonThrows
| OkJson "raw_voice list option"

definition voices_GET :: "env \<Rightarrow> (string \<Rightarrow> voices_upstream) \<Rightarrow> response" where
  "voices_GET e upstream =
     (let apiKey = ELEVENLABS_API_KEY e in
      if \<not> configured apiKey then jsonResponse (VoicesBody FALLBACK_VOICES) 200
      else
        (case upstream (the apiKey) of
           FetchThrows \<Rightarrow> jsonResponse (VoicesBody FALLBACK_VOICES) 200
         | NotOk \<Rightarrow> jsonResponse (VoicesBody FALLBACK_VOICES) 200
         | JsonThrows \<Rightarrow> jsonResponse (VoicesBody FALLBACK_VOICES) 200
         | OkJson data_voices \<Rightarrow>
             (let rawVoices =
                    (case data_voices of
                       None \<Rightarrow> map (\<lambda>(i, n). \<lparr>rv_voice_id = Some i, rv_id = None, rv_name = n\<rparr>)
                                 FALLBACK_VOICES
                     | Some vs \<Rightarrow> vs);
                  voices =
                    filter (\<lambda>v. fst v \<noteq> [])
                      (map (\<lambda>v. ((case rv_voice_id v of
                                     Some i \<Rightarrow> i
                                   | None \<Rightarrow> (case rv_id v of Some i \<Rightarrow> i | None \<Rightarrow> [])),
                                  rv_name v))
                         rawVoices);
                  hasRachel = list_ex (\<lambda>v. fst v = ''21m00Tcm4TlvDq8ikWAM'') voices;
                  voicesWithDefault =
                    (if hasRachel then voices
                     else (''21m00Tcm4TlvDq8ikWAM'', ''Rachel'') # voices)
              in jsonResponse (VoicesBody voicesWithDefault) 200)))"

datatype endpoint = Interviewer | Voice | Transcribe | Voices | ScribeToken | Reformat

text \<open>The credential an endpoint needs, and the endpoint's handler.\<close>

definition required_key :: "endpoint \<Rightarrow> env \<Rightarrow> string option" where
  "required_key ep e =
     (case ep of
        Interviewer \<Rightarrow> OPENROUTER_API_KEY e
      | Reformat \<Rightarrow> OPENROUTER_API_KEY e
      | Voice \<Rightarrow> ELEVENLABS_API_KEY e
      | Transcribe \<Rightarrow> ELEVENLABS_API_KEY e
      | Voices \<Rightarrow> ELEVENLABS_API_KEY e
      | ScribeToken \<Rightarrow> ELEVENLABS_API_KEY e)"

definition handler ::
  "endpoint \<Rightarrow> env \<Rightarrow> (string \<Rightarrow> response) \<Rightarrow> (string \<Rightarrow> voices_upstream) \<Rightarrow> response" where
  "handler ep e withKey upstream =
     (case ep of
        Interviewer \<Rightarrow> interviewer_POST e withKey
      | Reformat \<Rightarrow> reformat_POST e withKey
      | Voice \<Rightarrow> voice_POST e withKey
      | Transcribe \<Rightarrow> transcribe_POST e withKey
      | Voices \<Rightarrow> voices_GET e upstream
      | ScribeToken \<Rightarrow> scribe_token_GET e withKey)"

definition is_error_body :: "body \<Rightarrow> bool" where
  "is_error_body b = (case b of ErrorBody m \<Rightarrow> True | _ \<Rightarrow> False)"

text \<open>An environment with no credential at all, a rest of a handler and an upstream that
  are never reached in it.\<close>

definition unconfigured :: env where
  "unconfigured = \<lparr>OPENROUTER_API_KEY = None, ELEVENLABS_API_KEY = Some []\<rparr>"

definition unreached :: "string \<Rightarrow> response" where
  "unreached k = jsonResponse (TextBody []) 200"

definition upstream_down :: "string \<Rightarrow> voices_upstream" where
  "upstream_down k = FetchThrows"

section \<open>Properties of the codec\<close>

subsection \<open>Base64 and 16-bit samples\<close>

lemma b64val_b64char: "i < 64 \<Longrightarrow> b64val (b64char i) = Some i"
  unfolding b64val_def b64char_def Let_def
  apply (simp split: if_splits)
  by arith

lemma b64char_not_pad: "i < 64 \<Longrightarrow> b64char i \<noteq> CHR ''=''"
proof
  assume a: "i < 64" and e: "b64char i = CHR ''=''"
  from e have "(of_char (b64char i) :: nat) = 61" by simp
  with a show False by (simp add: b64char_def split: if_splits)
qed

lemma div_pack: "y < k \<Longrightarrow> (x * k + y) div k = (x::nat)"
  by simp

lemma mod_pack: "y < k \<Longrightarrow> (x * k + y) mod k = (y::nat)"
  by simp

lemma sextet_bounds:
  assumes "a < (256::nat)"
  shows "a div 4 < 64" "a div 16 < 16" "a div 64 < 4" "a mod 4 * 16 < 64" "a mod 16 * 4 < 64"
  using assms by simp_all

lemma sextet_sum_bounds:
  assumes "b < (256::nat)"
  shows "a mod 4 * 16 + b div 16 < 64" "a mod 16 * 4 + b div 64 < 64"
proof -
  have "a mod 4 \<le> 3" "a mod 16 \<le> 15" by simp_all
  moreover have "b div 16 \<le> 15" "b div 64 \<le> 3" using assms by simp_all
  ultimately show "a mod 4 * 16 + b div 16 < 64" "a mod 16 * 4 + b div 64 < 64" by linarith+
qed

lemma atob_btoa: "\<forall>b\<in>set bs. b < 256 \<Longrightarrow> atob (btoa bs) = Some bs"
proof (induction bs rule: btoa.induct)
  case 1
  then show ?case by simp
next
  case (2 a)
  then have a: "a < 256" by simp
  show ?case using a
    by (simp add: b64val_b64char b64char_not_pad sextet_bounds div_pack)
next
  case (3 a b)
  then have a: "a < 256" "b < 256" by simp_all
  show ?case using a
    by (simp add: b64val_b64char b64char_not_pad sextet_bounds sextet_sum_bounds div_pack mod_pack)
next
  case (4 a b c rest)
  then have a: "a < 256" "b < 256" "c < 256" by simp_all
  from 4 have ih: "atob (btoa rest) = Some rest" by simp
  show ?case using a ih
    by (simp add: b64val_b64char b64char_not_pad sextet_bounds sextet_sum_bounds div_pack mod_pack)
qed

lemma int16_le_bytes: "\<forall>b\<in>set (int16_le n). b < 256"
proof -
  have "nat (n mod 65536) < 65536" by simp
  then have "nat (n mod 65536) div 256 < 256" by simp
  then show ?thesis by (simp add: int16_le_def Let_def)
qed

lemma int16s_of_le_int16_le:
  assumes "- 32768 \<le> n" "n \<le> 32767" "int16s_of_le rest = Some ns"
  shows "int16s_of_le (int16_le n @ rest) = Some (n # ns)"
proof -
  define u where "u = nat (n mod 65536)"
  have u: "int (u mod 256) + 256 * int (u div 256) = int u" 
    by (metis mult.commute mod_mult_div_eq of_nat_add of_nat_mult of_nat_numeral)
  have iu: "int u = n mod 65536" by (simp add: u_def)
  have "(if n mod 65536 \<ge> 32768 then n mod 65536 - 65536 else n mod 65536) = n"
  proof (cases "n < 0")
    case True
    have "n mod 65536 = (n + 65536) mod 65536" by simp
    also have "\<dots> = n + 65536" using True assms(1) by (intro mod_pos_pos_trivial) simp_all
    finally show ?thesis using assms(1) by simp
  next
    case False
    then have "n mod 65536 = n" using assms(2) by simp
    then show ?thesis using assms(2) by simp
  qed
  then show ?thesis using assms(3) u iu
    by (simp add: int16_le_def Let_def u_def[symmetric])
qed

lemma int16s_of_le_concat:
  "\<forall>n\<in>set ns. - 32768 \<le> n \<and> n \<le> 32767 \<Longrightarrow> int16s_of_le (concat (map int16_le ns)) = Some ns"
  by (induction ns) (simp_all add: int16s_of_le_int16_le)

lemma int16_wrap_id:
  assumes "- 32768 \<le> n" "n \<le> (32767::int)"
  shows "(let m = n mod 65536 in if m \<ge> 32768 then m - 65536 else m) = n"
proof (cases "n < 0")
  case True
  have "n mod 65536 = (n + 65536) mod 65536" by simp
  also have "\<dots> = n + 65536" using True assms(1) by (intro mod_pos_pos_trivial) simp_all
  finally show ?thesis using assms(1) by (simp add: Let_def)
next
  case False
  then have "n mod 65536 = n" using assms(2) by simp
  then show ?thesis using assms(2) by (simp add: Let_def)
qed

lemma clamp1_range: "- 1 \<le> clamp1 x" "clamp1 x \<le> 1"
  by (simp_all add: clamp1_def)

lemma clamp1_id: "- 1 \<le> x \<Longrightarrow> x \<le> 1 \<Longrightarrow> clamp1 x = x"
  by (simp add: clamp1_def)

lemma quantize_neg:
  assumes "clamp1 x < 0"
  shows "quantize x = \<lceil>clamp1 x * 32768\<rceil>"
proof -
  let ?y = "clamp1 x * 32768"
  have lo: "- 32768 \<le> ?y" using clamp1_range(1)[of x] by simp
  have hi: "?y < 0" using assms by simp
  have "- 32768 \<le> \<lceil>?y\<rceil>" using lo by (simp add: le_ceiling_iff)
  moreover have "\<lceil>?y\<rceil> \<le> 0" using hi by (simp add: ceiling_le_iff)
  ultimately have "toInt16 ?y = \<lceil>?y\<rceil>"
    using hi int16_wrap_id[of "\<lceil>?y\<rceil>"] by (simp add: toInt16_def js_trunc_def)
  then show ?thesis using assms by (simp add: quantize_def Let_def)
qed

lemma quantize_nonneg:
  assumes "\<not> clamp1 x < 0"
  shows "quantize x = \<lfloor>clamp1 x * 32767\<rfloor>"
proof -
  let ?y = "clamp1 x * 32767"
  have lo: "0 \<le> ?y" using assms by simp
  have hi: "?y \<le> 32767" using clamp1_range(2)[of x] by simp
  have "0 \<le> \<lfloor>?y\<rfloor>" using lo by simp
  moreover have "\<lfloor>?y\<rfloor> \<le> 32767" using hi by (simp add: floor_le_iff)
  ultimately have "toInt16 ?y = \<lfloor>?y\<rfloor>"
    using lo int16_wrap_id[of "\<lfloor>?y\<rfloor>"] by (simp add: toInt16_def js_trunc_def)
  then show ?thesis using assms by (simp add: quantize_def Let_def)
qed

lemma quantize_range: "- 32768 \<le> quantize x \<and> quantize x \<le> 32767"
proof (cases "clamp1 x < 0")
  case True
  have "- 32768 \<le> clamp1 x * 32768" using clamp1_range(1)[of x] by simp
  then have "- 32768 \<le> \<lceil>clamp1 x * 32768\<rceil>" by (simp add: le_ceiling_iff)
  moreover have "\<lceil>clamp1 x * 32768\<rceil> \<le> 0" using True by (simp add: ceiling_le_iff)
  ultimately show ?thesis by (simp add: quantize_neg[OF True])
next
  case False
  have "clamp1 x * 32767 \<le> 32767" using clamp1_range(2)[of x] by simp
  then have "\<lfloor>clamp1 x * 32767\<rfloor> \<le> 32767" by (simp add: floor_le_iff)
  moreover have "0 \<le> \<lfloor>clamp1 x * 32767\<rfloor>" using False by simp
  ultimately show ?thesis by (simp add: quantize_nonneg[OF False])
qed

lemma quantize_error: "\<bar>dequantize (quantize x) - clamp1 x\<bar> < 1 / 32767"
proof (cases "clamp1 x < 0")
  case True
  let ?y = "clamp1 x * 32768"
  let ?c = "\<lceil>?y\<rceil>"
  have q: "quantize x = ?c" by (rule quantize_neg[OF True])
  have c1: "?y \<le> of_int ?c" by (rule le_of_int_ceiling)
  have c2: "of_int ?c < ?y + 1" by linarith
  have c0: "?c \<le> 0" using True by (simp add: ceiling_le_iff)
  show ?thesis
  proof (cases "?c < 0")
    case True
    then have d: "dequantize ?c = of_int ?c / 32768" by (simp add: dequantize_def)
    have b: "\<bar>of_int ?c / 32768 - clamp1 x\<bar> < 1 / 32768" using c1 c2 by (simp add: field_simps abs_less_iff)
    have "\<bar>dequantize (quantize x) - clamp1 x\<bar> < 1 / 32768" unfolding q d by (rule b)
    also have "(1::real) / 32768 < 1 / 32767" by simp
    finally show ?thesis .
  next
    case False
    then have z: "?c = 0" using c0 by linarith
    then have d: "dequantize ?c = 0" by (simp add: dequantize_def)
    have "- clamp1 x < 1 / 32768" using c2 z by simp
    then have "\<bar>0 - clamp1 x\<bar> < 1 / 32768" using True by simp
    then have "\<bar>dequantize (quantize x) - clamp1 x\<bar> < 1 / 32768" unfolding q d .
    also have "(1::real) / 32768 < 1 / 32767" by simp
    finally show ?thesis .
  qed
next
  case False
  let ?y = "clamp1 x * 32767"
  let ?f = "\<lfloor>?y\<rfloor>"
  have q: "quantize x = ?f" by (rule quantize_nonneg[OF False])
  have f0: "0 \<le> ?f" using False by simp
  have f1: "of_int ?f \<le> ?y" by (rule of_int_floor_le)
  have f2: "?y < of_int ?f + 1" by linarith
  have d: "dequantize ?f = of_int ?f / 32767" using f0 by (simp add: dequantize_def)
  have b: "\<bar>of_int ?f / 32767 - clamp1 x\<bar> < 1 / 32767" using f1 f2 by (simp add: field_simps abs_less_iff)
  show ?thesis unfolding q d by (rule b)
qed

lemma float32ToPcmBase64_same_rate:
  "float32ToPcmBase64 samples (Some r) (Some r) = btoa (concat (map int16_le (map quantize samples)))"
  by (simp add: float32ToPcmBase64_def Let_def)

lemma concat_int16_le_bytes: "\<forall>b\<in>set (concat (map int16_le ns)). b < 256"
  using int16_le_bytes by auto

lemma pcmBase64_decode_encode:
  "pcmBase64_decode (btoa (concat (map int16_le (map quantize samples)))) = Some (map quantize samples)"
proof -
  have "atob (btoa (concat (map int16_le (map quantize samples)))) = Some (concat (map int16_le (map quantize samples)))"
    by (rule atob_btoa[OF concat_int16_le_bytes])
  moreover have "int16s_of_le (concat (map int16_le (map quantize samples))) = Some (map quantize samples)"
    by (rule int16s_of_le_concat) (simp add: quantize_range)
  ultimately show ?thesis by (simp add: pcmBase64_decode_def)
qed

text \<open>
  Claim C7. With the source rate equal to the target rate, \<open>float32ToPcmBase64\<close> does not
  resample: it returns what it returns without rates. Decoding its result (base64, then
  little-endian 16-bit samples) gives one sample for each input sample, and each, scaled
  back, is within one 16-bit step (less than \<open>1 / 32767\<close>) of the clamped input sample,
  which is the input sample itself when that lies in \<open>[-1, 1]\<close>. Being a function of its
  arguments, the encoding is deterministic and has no effect.
\<close>

theorem float32ToPcmBase64_identity:
  "float32ToPcmBase64 samples (Some r) (Some r) = float32ToPcmBase64 samples None None \<and>
   (\<exists>pcm. pcmBase64_decode (float32ToPcmBase64 samples (Some r) (Some r)) = Some pcm \<and>
      length pcm = length samples \<and>
      (\<forall>i<length samples.
         \<bar>dequantize (pcm ! i) - clamp1 (samples ! i)\<bar> < 1 / 32767 \<and>
         (- 1 \<le> samples ! i \<and> samples ! i \<le> 1 \<longrightarrow> \<bar>dequantize (pcm ! i) - samples ! i\<bar> < 1 / 32767)))"
proof -
  have e: "float32ToPcmBase64 samples (Some r) (Some r) = float32ToPcmBase64 samples None None"
    by (simp add: float32ToPcmBase64_def Let_def truthy_rate_def)
  have d: "pcmBase64_decode (float32ToPcmBase64 samples (Some r) (Some r)) = Some (map quantize samples)"
    by (simp only: float32ToPcmBase64_same_rate pcmBase64_decode_encode)
  have "\<forall>i<length samples.
         \<bar>dequantize (map quantize samples ! i) - clamp1 (samples ! i)\<bar> < 1 / 32767 \<and>
         (- 1 \<le> samples ! i \<and> samples ! i \<le> 1 \<longrightarrow> \<bar>dequantize (map quantize samples ! i) - samples ! i\<bar> < 1 / 32767)"
    using quantize_error clamp1_id by (metis nth_map)
  with e d show ?thesis by simp
qed

text \<open>The statement of C7 at the samples \<open>1/2\<close>, \<open>-1\<close>, \<open>3\<close> and the rate 16000.\<close>

theorem float32ToPcmBase64_identity_witness:
  "\<exists>pcm. pcmBase64_decode (float32ToPcmBase64 [1 / 2, - 1, 3] (Some 16000) (Some 16000)) = Some pcm \<and>
     length pcm = 3 \<and> \<bar>dequantize (pcm ! 0) - 1 / 2\<bar> < 1 / 32767 \<and> \<bar>dequantize (pcm ! 2) - 1\<bar> < 1 / 32767"
proof -
  have c: "clamp1 (1 / 2) = 1 / 2" "clamp1 3 = 1" by (simp_all add: clamp1_def)
  from float32ToPcmBase64_identity [of "[1 / 2, - 1, 3]" 16000]
  obtain pcm where p: "pcmBase64_decode (float32ToPcmBase64 [1 / 2, - 1, 3] (Some 16000) (Some 16000)) = Some pcm"
    "length pcm = length [1 / 2, - 1, 3::real]"
    "\<forall>i<length [1 / 2, - 1, 3::real]. \<bar>dequantize (pcm ! i) - clamp1 ([1 / 2, - 1, 3] ! i)\<bar> < 1 / 32767"
    by blast
  have "\<bar>dequantize (pcm ! 0) - clamp1 ([1 / 2, - 1, 3] ! 0)\<bar> < 1 / 32767"
    by (rule p(3)[rule_format]) simp
  moreover have "\<bar>dequantize (pcm ! 2) - clamp1 ([1 / 2, - 1, 3] ! 2)\<bar> < 1 / 32767"
    by (rule p(3)[rule_format]) simp
  ultimately have "\<bar>dequantize (pcm ! 0) - 1 / 2\<bar> < 1 / 32767" "\<bar>dequantize (pcm ! 2) - 1\<bar> < 1 / 32767"
    by (simp_all only: c nth_Cons_0 nth_Cons_numeral numeral_2_eq_2 nth_Cons_Suc)
  with p(1,2) show ?thesis by (intro exI[of _ pcm]) simp
qed

subsection \<open>The WAV container\<close>

lemma length_int16_le: "length (int16_le n) = 2"
  by (simp add: int16_le_def Let_def)

lemma length_uint32_le: "length (uint32_le n) = 4"
  by (simp add: uint32_le_def Let_def)

lemma length_uint16_le: "length (uint16_le n) = 2"
  by (simp add: uint16_le_def Let_def)

lemma length_concat_int16_le: "length (concat (map (\<lambda>i. int16_le (f i)) xs)) = 2 * length xs"
  by (induction xs) (simp_all add: length_int16_le)

lemma uint32_bytes_sum:
  "n mod 256 + 256 * (n div 256 mod 256) + 65536 * (n div 65536 mod 256) + 16777216 * (n div 16777216) = (n::nat)"
proof -
  define a where "a = n div 256"
  define b where "b = a div 256"
  define c where "c = b div 256"
  have b: "n div 65536 = b" unfolding b_def a_def by (simp add: div_mult2_eq)
  have c: "n div 16777216 = c" unfolding c_def b_def a_def by (simp add: div_mult2_eq)
  have "n = n mod 256 + 256 * a" unfolding a_def by simp
  moreover have "a = a mod 256 + 256 * b" unfolding b_def by simp
  moreover have "b = b mod 256 + 256 * c" unfolding c_def by simp
  ultimately have "n = n mod 256 + 256 * (a mod 256) + 65536 * (b mod 256) + 16777216 * c"
    by linarith
  then show ?thesis unfolding b c by (simp add: a_def)
qed

lemma uint32_of_le_uint32_le: "n < 4294967296 \<Longrightarrow> uint32_of_le (uint32_le n) = n"
  using uint32_bytes_sum[of n] by (simp add: uint32_of_le_def uint32_le_def Let_def)

lemma length_canonical_wav_header: "length (canonical_wav_header r n) = 44"
  by (simp add: canonical_wav_header_def length_uint32_le)

lemma audioBufferToWav_split:
  "audioBufferToWav b = canonical_wav_header (sampleRate b) (ab_length b) @
     concat (map (\<lambda>i. int16_le (wav_pcm b i)) [0..<ab_length b])"
  by (simp add: audioBufferToWav_def canonical_wav_header_def Let_def writeString_def charCodes_def uint32_le_def uint16_le_def mult.commute)

lemma length_audioBufferToWav: "length (audioBufferToWav b) = 44 + 2 * ab_length b"
  by (simp add: audioBufferToWav_split length_canonical_wav_header length_concat_int16_le)

lemma take_44_audioBufferToWav:
  "take 44 (audioBufferToWav b) = canonical_wav_header (sampleRate b) (ab_length b)"
  by (simp add: audioBufferToWav_split length_canonical_wav_header)

lemma drop_44_audioBufferToWav:
  "drop 44 (audioBufferToWav b) = concat (map (\<lambda>i. int16_le (wav_pcm b i)) [0..<ab_length b])"
  by (simp add: audioBufferToWav_split length_canonical_wav_header)

lemma dataSize_field:
  "take 4 (drop 40 (audioBufferToWav b)) = uint32_le (2 * ab_length b)"
  by (simp add: audioBufferToWav_split canonical_wav_header_def length_uint32_le)

lemma wav_pcm_mono: "moreChannels b = [] \<Longrightarrow> wav_pcm b i = quantize (channel0 b ! i)"
  by (simp add: wav_pcm_def mixed_sample_def numberOfChannels_def Let_def)

lemma wav_pcm_two:
  "moreChannels b = right # rest \<Longrightarrow> i < length right \<Longrightarrow>
   wav_pcm b i =
     quantize_double (round_double (round_double (channel0 b ! i + right ! i) / 2))"
  by (simp add: wav_pcm_def mixed_sample_def numberOfChannels_def Let_def)

text \<open>
  Claim C8, as amended. The buffer that \<open>audioBufferToWav\<close> returns for \<open>N\<close> frames has
  \<open>44 + 2 * N\<close> bytes; its first 44 bytes are the canonical header of a mono 16-bit PCM
  file at the buffer's sample rate, and the data size it declares is \<open>2 * N\<close> (where that
  fits the 32-bit field). The data is the quantized channel for input of one channel. For
  input of two or more channels it is computed from the first two channels only, a third
  or later channel is not read: the sample of a frame is the mean of the two as double
  arithmetic computes it (the sum rounded, then halved), clamped, scaled (the product
  rounded) and truncated to 16 bits.
\<close>

theorem audioBufferToWav_layout:
  "length (audioBufferToWav b) = 44 + 2 * ab_length b \<and>
   take 44 (audioBufferToWav b) = canonical_wav_header (sampleRate b) (ab_length b) \<and>
   (2 * ab_length b < 4294967296 \<longrightarrow>
      uint32_of_le (take 4 (drop 40 (audioBufferToWav b))) = 2 * ab_length b) \<and>
   (moreChannels b = [] \<longrightarrow>
      drop 44 (audioBufferToWav b) =
        concat (map (\<lambda>i. int16_le (quantize (channel0 b ! i))) [0..<ab_length b])) \<and>
   (\<forall>right rest. moreChannels b = right # rest \<and> length right = ab_length b \<longrightarrow>
      drop 44 (audioBufferToWav b) =
        concat (map (\<lambda>i. int16_le (quantize_double
                       (round_double (round_double (channel0 b ! i + right ! i) / 2))))
                  [0..<ab_length b]))"
proof (intro conjI allI impI)
  show "length (audioBufferToWav b) = 44 + 2 * ab_length b" by (rule length_audioBufferToWav)
  show "take 44 (audioBufferToWav b) = canonical_wav_header (sampleRate b) (ab_length b)"
    by (rule take_44_audioBufferToWav)
next
  assume "2 * ab_length b < 4294967296"
  then show "uint32_of_le (take 4 (drop 40 (audioBufferToWav b))) = 2 * ab_length b"
    by (simp only: dataSize_field uint32_of_le_uint32_le)
next
  assume "moreChannels b = []"
  then show "drop 44 (audioBufferToWav b) =
        concat (map (\<lambda>i. int16_le (quantize (channel0 b ! i))) [0..<ab_length b])"
    by (simp add: drop_44_audioBufferToWav wav_pcm_mono)
next
  fix right rest
  assume a: "moreChannels b = right # rest \<and> length right = ab_length b"
  then have "map (\<lambda>i. int16_le (wav_pcm b i)) [0..<ab_length b] =
     map (\<lambda>i. int16_le (quantize_double
            (round_double (round_double (channel0 b ! i + right ! i) / 2))))
       [0..<ab_length b]"
    by (intro map_cong refl) (simp add: wav_pcm_two)
  then show "drop 44 (audioBufferToWav b) =
        concat (map (\<lambda>i. int16_le (quantize_double
                       (round_double (round_double (channel0 b ! i + right ! i) / 2))))
                  [0..<ab_length b])"
    by (simp only: drop_44_audioBufferToWav)
qed

subsection \<open>Rounding to a double\<close>

lemma pow2_powr: "pow2 e = 2 powr (of_int e)"
proof (cases "0 \<le> e")
  case True
  then have "(2::real) powr (of_int e) = 2 powr (real (nat e))" by simp
  also have "\<dots> = 2 ^ nat e" by (rule powr_realpow) simp
  finally show ?thesis using True by (simp add: pow2_def)
next
  case False
  then have "(2::real) powr (of_int e) = 2 powr (- real (nat (- e)))" by simp
  also have "\<dots> = 1 / (2 powr (real (nat (- e))))" by (simp add: powr_minus divide_inverse)
  also have "2 powr (real (nat (- e))) = (2::real) ^ nat (- e)" by (rule powr_realpow) simp
  finally show ?thesis using False by (simp add: pow2_def)
qed

lemma pow2_mono: "e \<le> e' \<Longrightarrow> pow2 e \<le> pow2 e'"
  by (simp add: pow2_powr)

lemma binade_search_found:
  "pow2 e \<le> a \<Longrightarrow> a < pow2 (e + 1) \<Longrightarrow> e \<le> e0 \<Longrightarrow> e0 - e \<le> int n \<Longrightarrow>
   binade_search n e0 a = e"
proof (induction n arbitrary: e0)
  case 0
  then show ?case by simp
next
  case (Suc n)
  show ?case
  proof (cases "e0 = e")
    case True
    then show ?thesis using Suc.prems(1) by simp
  next
    case False
    then have lt: "e + 1 \<le> e0" using Suc.prems(3) by simp
    then have "pow2 (e + 1) \<le> pow2 e0" by (rule pow2_mono)
    then have n: "\<not> pow2 e0 \<le> a" using Suc.prems(2) by simp
    have "binade_search n (e0 - 1) a = e"
      using Suc.prems lt by (intro Suc.IH) simp_all
    then show ?thesis using n by simp
  qed
qed

lemma binade_eq:
  "pow2 e \<le> a \<Longrightarrow> a < pow2 (e + 1) \<Longrightarrow> - 1022 \<le> e \<Longrightarrow> e \<le> 1023 \<Longrightarrow> binade a = e"
  unfolding binade_def by (rule binade_search_found) simp_all

lemma round_double_binade:
  "pow2 e \<le> \<bar>x\<bar> \<Longrightarrow> \<bar>x\<bar> < pow2 (e + 1) \<Longrightarrow> - 1022 \<le> e \<Longrightarrow> e \<le> 1023 \<Longrightarrow>
   round_double x = of_int (round_half_even (x / pow2 (e - 52))) * pow2 (e - 52)"
  by (simp add: round_double_def Let_def binade_eq)

lemma round_double_one: "round_double 1 = 1"
  by (simp add: round_double_binade [of 0] pow2_def round_half_even_def Let_def)

lemma round_double_half: "round_double (1 / 2) = 1 / 2"
  by (simp add: round_double_binade [of "- 1"] pow2_def round_half_even_def Let_def)

lemma round_double_minus_half: "round_double (- (1 / 2)) = - (1 / 2)"
  by (simp add: round_double_binade [of "- 1"] pow2_def round_half_even_def Let_def)

lemma round_double_scaled_half: "round_double (32767 / 2) = 32767 / 2"
  by (simp add: round_double_binade [of 13] pow2_def round_half_even_def Let_def)

lemma round_double_minus_16384: "round_double (- 16384) = - 16384"
  by (simp add: round_double_binade [of 14] pow2_def round_half_even_def Let_def)

lemma round_double_sum: "round_double (- 1 + 1 / 2 ^ 60) = - 1"
  by (simp add: round_double_binade [of "- 1"] pow2_def round_half_even_def Let_def)

lemma round_double_sum_numeral:
  "round_double (- (1152921504606846975 / 1152921504606846976)) = - 1"
  using round_double_sum by simp

lemma quantize_double_half: "quantize_double (1 / 2) = 16383"
  by (simp add: quantize_double_def clamp1_def round_double_scaled_half toInt16_def
      js_trunc_def Let_def)

lemma quantize_double_minus_half: "quantize_double (- (1 / 2)) = - 16384"
  by (simp add: quantize_double_def clamp1_def round_double_minus_16384 toInt16_def
      js_trunc_def Let_def)

lemma quantize_half: "quantize (1 / 2) = 16383"
  by (simp add: quantize_def clamp1_def toInt16_def js_trunc_def Let_def)

lemma quantize_zero: "quantize 0 = 0"
  by (simp add: quantize_def clamp1_def toInt16_def js_trunc_def Let_def)

text \<open>The statement of C8 at a buffer of three channels and one frame, and at a buffer
  of two channels whose sum \<open>-1 + 2^-60\<close> rounds to \<open>-1\<close>.\<close>

theorem audioBufferToWav_layout_witness:
  "length (audioBufferToWav three_channels) = 46 \<and>
   take 44 (audioBufferToWav three_channels) =
     [82, 73, 70, 70, 38, 0, 0, 0, 87, 65, 86, 69, 102, 109, 116, 32, 16, 0, 0, 0, 1, 0, 1, 0,
      128, 62, 0, 0, 0, 125, 0, 0, 2, 0, 16, 0, 100, 97, 116, 97, 2, 0, 0, 0] \<and>
   uint32_of_le (take 4 (drop 40 (audioBufferToWav three_channels))) = 2 \<and>
   drop 44 (audioBufferToWav three_channels) = [255, 63] \<and>
   drop 44 (audioBufferToWav rounded_sum) = [0, 192]"
  using audioBufferToWav_layout [of three_channels] audioBufferToWav_layout [of rounded_sum]
  by (simp add: three_channels_def rounded_sum_def ab_length_def canonical_wav_header_def
      uint32_le_def round_double_one round_double_half round_double_sum_numeral
      round_double_minus_half quantize_double_half quantize_double_minus_half int16_le_def
      Let_def)

text \<open>
  Claim C8 as stated fails: for three channels \<open>1/2\<close>, \<open>1/2\<close>, \<open>-1\<close> the mean of the
  channels is 0, and the data written is the sample \<open>16383\<close>, the mean of the first two.
\<close>

theorem audioBufferToWav_all_channels_mean_counterexample:
  "drop 44 (audioBufferToWav three_channels) = [255, 63] \<and>
   wav_data_all_channels_mean three_channels = [0, 0] \<and>
   drop 44 (audioBufferToWav three_channels) \<noteq> wav_data_all_channels_mean three_channels"
  by (simp add: drop_44_audioBufferToWav three_channels_def ab_length_def wav_pcm_def
      mixed_sample_def numberOfChannels_def wav_data_all_channels_mean_def frame_mean_def
      round_double_one round_double_half quantize_double_half quantize_zero int16_le_def
      Let_def)

section \<open>Properties of the voice session\<close>

subsection \<open>Strings\<close>

lemma last_dropWhile: "dropWhile P xs \<noteq> [] \<Longrightarrow> last (dropWhile P xs) = last xs"
  by (induction xs) (auto split: if_splits)

lemma trim_eq_Nil_iff: "trim str = [] \<longleftrightarrow> (\<forall>c\<in>set str. is_ws c)"
proof -
  let ?d = "dropWhile is_ws str"
  have "trim str = [] \<longleftrightarrow> (\<forall>c\<in>set ?d. is_ws c)"
    by (simp add: trim_def dropWhile_eq_Nil_conv)
  also have "\<dots> \<longleftrightarrow> ?d = []"
  proof
    assume a: "\<forall>c\<in>set ?d. is_ws c"
    show "?d = []"
    proof (rule ccontr)
      assume n: "?d \<noteq> []"
      then have "\<not> is_ws (hd ?d)" by (rule hd_dropWhile)
      moreover have "hd ?d \<in> set ?d" using n by simp
      ultimately show False using a by blast
    qed
  next
    assume e: "?d = []"
    show "\<forall>c\<in>set ?d. is_ws c" unfolding e by simp
  qed
  also have "\<dots> \<longleftrightarrow> (\<forall>c\<in>set str. is_ws c)"
    by (simp add: dropWhile_eq_Nil_conv)
  finally show ?thesis .
qed

lemma trim_id:
  assumes "str \<noteq> []" "\<not> is_ws (hd str)" "\<not> is_ws (last str)"
  shows "trim str = str"
proof -
  have d: "dropWhile is_ws str = str" using assms(1,2) by (cases str) simp_all
  have "rev str \<noteq> []" "\<not> is_ws (hd (rev str))" using assms(1,3) by (simp_all add: hd_rev)
  then have "dropWhile is_ws (rev str) = rev str" by (cases "rev str") simp_all
  with d show ?thesis by (simp add: trim_def)
qed

lemma trim_ends:
  assumes "trim str \<noteq> []"
  shows "\<not> is_ws (hd (trim str))" "\<not> is_ws (last (trim str))"
proof -
  let ?d = "dropWhile is_ws str"
  let ?e = "dropWhile is_ws (rev ?d)"
  have t: "trim str = rev ?e" by (simp add: trim_def)
  have e: "?e \<noteq> []" using assms t by simp
  then have d: "?d \<noteq> []" by (metis dropWhile.simps(1) rev.simps(1))
  have "last (trim str) = hd ?e" using e by (simp add: t last_rev)
  moreover have "\<not> is_ws (hd ?e)" using e by (rule hd_dropWhile)
  ultimately show "\<not> is_ws (last (trim str))" by simp
  have "hd (trim str) = last ?e" using e by (simp add: t hd_rev)
  also have "\<dots> = last (rev ?d)" using e by (rule last_dropWhile)
  also have "\<dots> = hd ?d" using d by (simp add: last_rev)
  finally have "hd (trim str) = hd ?d" .
  moreover have "\<not> is_ws (hd ?d)" using d by (rule hd_dropWhile)
  ultimately show "\<not> is_ws (hd (trim str))" by simp
qed

lemma trim_idem: "trim (trim str) = trim str"
proof (cases "trim str = []")
  case True
  have "trim [] = []" by (simp add: trim_def)
  then show ?thesis unfolding True .
next
  case False
  then show ?thesis by (intro trim_id trim_ends)
qed

lemma fragment_trim: "trim t \<noteq> [] \<Longrightarrow> fragment (trim t)"
  by (simp add: fragment_def trim_idem)








lemmas session_defs =
  run_def listening_events_def initial_session_def connect_def disconnect_def setStatus_def setErrorMessage_def
  onInterimTranscript_def onTranscriptUpdate_def setTimeout_def clearTimeout_def
  stopRecording_def startRecording_def start_gotUserMedia_def start_gotScribeToken_def start_rejected_def
  startRecordingAfterAI_def startRecordingAfterAI_timeout_def speakWithVoiceApi_done_def speakWithVoiceApi_def
  speakWithVoiceApi_then_def source_onended_def audioEl_onended_def audioEl_onerror_def speakWithVoiceApi_catch_def
  speak_def processUserInput_def processUserInput_resolved_def processUserInput_rejected_def
  ws_onerror_def ws_onclose_def ws_onmessage_def ws_onopen_def onaudioprocess_def commitManual_def commitManual_timeout_def
  fire_timer_def Let_def

lemmas string_defs = trim_def is_ws_def

subsection \<open>The sessions of the scenarios\<close>

lemma greeting_playing_eq:
  "greeting_playing =
   \<lparr>systemPrompt = ''Be kind.'', selectedVoiceId = ''21m00Tcm4TlvDq8ikWAM'',
    manualMode = False, status = Connected, errorMessage = None,
    isUserSpeaking = False, isAiSpeaking = True, streamRef = False,
    wsRef = None, audioContextRef = False, playbackContextRef = True,
    processorRef = False, sourceRef = False, currentAudioRef = False,
    currentPlaybackSourceRef = False, transcriptRef = [],
    isProcessingRef = False, isListeningRef = False,
    startRecordingTimeoutRef = None, isAiSpeakingRef = True,
    targetRateRef = 16000, manualBufferRef = [],
    pendingManualCommitRef = False, pendingManualCommitTimeoutRef = None,
    timers = [], nextTimerId = 1, shownTranscript = [],
    interimTranscript = [], interviewerRequests = [],
    voiceRequests =
    [(''Hello, I am your OpenJournal assistant. How can I help you?'',
    ''21m00Tcm4TlvDq8ikWAM'')],
    wsSent = [], startCalls = 0\<rparr>"
  by (simp add: greeting_playing_def session_defs string_defs)

lemma listening_vad_eq:
  "listening_vad =
   \<lparr>systemPrompt = ''Be kind.'', selectedVoiceId = ''21m00Tcm4TlvDq8ikWAM'',
    manualMode = False, status = Connected, errorMessage = None,
    isUserSpeaking = True, isAiSpeaking = False, streamRef = True,
    wsRef = Some OPEN, audioContextRef = True, playbackContextRef = True,
    processorRef = True, sourceRef = True, currentAudioRef = False,
    currentPlaybackSourceRef = False, transcriptRef = [],
    isProcessingRef = False, isListeningRef = True,
    startRecordingTimeoutRef = None, isAiSpeakingRef = False,
    targetRateRef = 16000, manualBufferRef = [],
    pendingManualCommitRef = False, pendingManualCommitTimeoutRef = None,
    timers = [], nextTimerId = 2, shownTranscript = [],
    interimTranscript = ''Listening...'', interviewerRequests = [],
    voiceRequests =
    [(''Hello, I am your OpenJournal assistant. How can I help you?'',
    ''21m00Tcm4TlvDq8ikWAM'')],
    wsSent = [], startCalls = 1\<rparr>"
  by (simp add: listening_vad_def session_defs string_defs)

lemma listening_manual_eq:
  "listening_manual =
   \<lparr>systemPrompt = ''Be kind.'', selectedVoiceId = ''21m00Tcm4TlvDq8ikWAM'',
    manualMode = True, status = Connected, errorMessage = None,
    isUserSpeaking = True, isAiSpeaking = False, streamRef = True,
    wsRef = Some OPEN, audioContextRef = True, playbackContextRef = True,
    processorRef = True, sourceRef = True, currentAudioRef = False,
    currentPlaybackSourceRef = False, transcriptRef = [],
    isProcessingRef = False, isListeningRef = True,
    startRecordingTimeoutRef = None, isAiSpeakingRef = False,
    targetRateRef = 16000, manualBufferRef = [],
    pendingManualCommitRef = False, pendingManualCommitTimeoutRef = None,
    timers = [], nextTimerId = 2, shownTranscript = [],
    interimTranscript = ''Listening...'', interviewerRequests = [],
    voiceRequests =
    [(''Hello, I am your OpenJournal assistant. How can I help you?'',
    ''21m00Tcm4TlvDq8ikWAM'')],
    wsSent = [], startCalls = 1\<rparr>"
  by (simp add: listening_manual_def session_defs string_defs)

lemma fragment_buffered_eq:
  "fragment_buffered =
   \<lparr>systemPrompt = ''Be kind.'', selectedVoiceId = ''21m00Tcm4TlvDq8ikWAM'',
    manualMode = True, status = Connected, errorMessage = None,
    isUserSpeaking = True, isAiSpeaking = False, streamRef = True,
    wsRef = Some OPEN, audioContextRef = True, playbackContextRef = True,
    processorRef = True, sourceRef = True, currentAudioRef = False,
    currentPlaybackSourceRef = False, transcriptRef = [],
    isProcessingRef = False, isListeningRef = True,
    startRecordingTimeoutRef = None, isAiSpeakingRef = False,
    targetRateRef = 16000, manualBufferRef = [''I had''],
    pendingManualCommitRef = False, pendingManualCommitTimeoutRef = None,
    timers = [], nextTimerId = 2, shownTranscript = [],
    interimTranscript = ''I had'', interviewerRequests = [],
    voiceRequests =
    [(''Hello, I am your OpenJournal assistant. How can I help you?'',
    ''21m00Tcm4TlvDq8ikWAM'')],
    wsSent = [], startCalls = 1\<rparr>"
  unfolding fragment_buffered_def listening_manual_eq
  by (simp add: session_defs string_defs)

lemma turn_processing_eq:
  "turn_processing =
   \<lparr>systemPrompt = ''Be kind.'', selectedVoiceId = ''21m00Tcm4TlvDq8ikWAM'',
    manualMode = False, status = Connected, errorMessage = None,
    isUserSpeaking = True, isAiSpeaking = False, streamRef = False,
    wsRef = None, audioContextRef = False, playbackContextRef = True,
    processorRef = False, sourceRef = False, currentAudioRef = False,
    currentPlaybackSourceRef = False,
    transcriptRef = [(User, ''I had a hard day'')], isProcessingRef = True,
    isListeningRef = False, startRecordingTimeoutRef = None,
    isAiSpeakingRef = False, targetRateRef = 16000, manualBufferRef = [],
    pendingManualCommitRef = False, pendingManualCommitTimeoutRef = None,
    timers = [], nextTimerId = 2,
    shownTranscript = [(User, ''I had a hard day'')],
    interimTranscript = [],
    interviewerRequests = [(''Be kind.'', [(User, ''I had a hard day'')])],
    voiceRequests =
    [(''Hello, I am your OpenJournal assistant. How can I help you?'',
    ''21m00Tcm4TlvDq8ikWAM'')],
    wsSent = [], startCalls = 1\<rparr>"
  unfolding turn_processing_def listening_vad_eq
  by (simp add: session_defs string_defs)

lemma reply_playing_eq:
  "reply_playing =
   \<lparr>systemPrompt = ''Be kind.'', selectedVoiceId = ''21m00Tcm4TlvDq8ikWAM'',
    manualMode = False, status = Connected, errorMessage = None,
    isUserSpeaking = True, isAiSpeaking = True, streamRef = False,
    wsRef = None, audioContextRef = False, playbackContextRef = True,
    processorRef = False, sourceRef = False, currentAudioRef = False,
    currentPlaybackSourceRef = False,
    transcriptRef =
    [(User, ''I had a hard day''), (Ai, ''What made it hard?'')],
    isProcessingRef = False, isListeningRef = False,
    startRecordingTimeoutRef = None, isAiSpeakingRef = True,
    targetRateRef = 16000, manualBufferRef = [],
    pendingManualCommitRef = False, pendingManualCommitTimeoutRef = None,
    timers = [], nextTimerId = 2,
    shownTranscript =
    [(User, ''I had a hard day''), (Ai, ''What made it hard?'')],
    interimTranscript = [],
    interviewerRequests = [(''Be kind.'', [(User, ''I had a hard day'')])],
    voiceRequests =
    [(''Hello, I am your OpenJournal assistant. How can I help you?'',
    ''21m00Tcm4TlvDq8ikWAM''),
    (''What made it hard?'', ''21m00Tcm4TlvDq8ikWAM'')],
    wsSent = [], startCalls = 1\<rparr>"
  unfolding reply_playing_def listening_vad_eq
  by (simp add: session_defs string_defs)

lemma voice_failed_eq:
  "voice_failed =
   \<lparr>systemPrompt = ''Be kind.'', selectedVoiceId = ''21m00Tcm4TlvDq8ikWAM'',
    manualMode = False, status = Connected,
    errorMessage = Some ''Voice API failed (500)'', isUserSpeaking = True,
    isAiSpeaking = False, streamRef = False, wsRef = None,
    audioContextRef = False, playbackContextRef = True,
    processorRef = False, sourceRef = False, currentAudioRef = False,
    currentPlaybackSourceRef = False,
    transcriptRef =
    [(User, ''I had a hard day''), (Ai, ''What made it hard?'')],
    isProcessingRef = False, isListeningRef = False,
    startRecordingTimeoutRef = Some 2, isAiSpeakingRef = False,
    targetRateRef = 16000, manualBufferRef = [],
    pendingManualCommitRef = False, pendingManualCommitTimeoutRef = None,
    timers = [(2, StartRecordingTimeout)], nextTimerId = 3,
    shownTranscript =
    [(User, ''I had a hard day''), (Ai, ''What made it hard?'')],
    interimTranscript = [],
    interviewerRequests = [(''Be kind.'', [(User, ''I had a hard day'')])],
    voiceRequests =
    [(''Hello, I am your OpenJournal assistant. How can I help you?'',
    ''21m00Tcm4TlvDq8ikWAM''),
    (''What made it hard?'', ''21m00Tcm4TlvDq8ikWAM'')],
    wsSent = [], startCalls = 1\<rparr>"
  unfolding voice_failed_def reply_playing_eq
  by (simp add: session_defs string_defs)

lemma quota_exceeded_twice_eq:
  "quota_exceeded_twice =
   \<lparr>systemPrompt = ''Be kind.'', selectedVoiceId = ''21m00Tcm4TlvDq8ikWAM'',
    manualMode = False, status = Connected,
    errorMessage = Some ''Quota exceeded'', isUserSpeaking = True,
    isAiSpeaking = False, streamRef = False, wsRef = None,
    audioContextRef = False, playbackContextRef = True,
    processorRef = False, sourceRef = False, currentAudioRef = False,
    currentPlaybackSourceRef = False, transcriptRef = [],
    isProcessingRef = False, isListeningRef = False,
    startRecordingTimeoutRef = None, isAiSpeakingRef = False,
    targetRateRef = 16000, manualBufferRef = [],
    pendingManualCommitRef = False, pendingManualCommitTimeoutRef = None,
    timers = [], nextTimerId = 2, shownTranscript = [],
    interimTranscript = ''Listening...'', interviewerRequests = [],
    voiceRequests =
    [(''Hello, I am your OpenJournal assistant. How can I help you?'',
    ''21m00Tcm4TlvDq8ikWAM'')],
    wsSent = [], startCalls = 3\<rparr>"
  unfolding quota_exceeded_twice_def listening_vad_eq
  by (simp add: session_defs string_defs)

lemma commit_pending_eq:
  "commit_pending =
   \<lparr>systemPrompt = ''Be kind.'', selectedVoiceId = ''21m00Tcm4TlvDq8ikWAM'',
    manualMode = True, status = Connected, errorMessage = None,
    isUserSpeaking = True, isAiSpeaking = False, streamRef = True,
    wsRef = Some OPEN, audioContextRef = True, playbackContextRef = True,
    processorRef = True, sourceRef = True, currentAudioRef = False,
    currentPlaybackSourceRef = False, transcriptRef = [],
    isProcessingRef = False, isListeningRef = True,
    startRecordingTimeoutRef = None, isAiSpeakingRef = False,
    targetRateRef = 16000, manualBufferRef = [''I had''],
    pendingManualCommitRef = True, pendingManualCommitTimeoutRef = Some 2,
    timers = [(2, PendingManualCommitTimeout)], nextTimerId = 3, shownTranscript = [],
    interimTranscript = ''I had'', interviewerRequests = [],
    voiceRequests =
    [(''Hello, I am your OpenJournal assistant. How can I help you?'',
    ''21m00Tcm4TlvDq8ikWAM'')],
    wsSent =
    [\<lparr>audio_base_64 = createSilentPcmBase64 1024, sample_rate = 16000,
    commit = True\<rparr>], startCalls = 1\<rparr>"
  unfolding commit_pending_def fragment_buffered_eq
  by (simp add: session_defs)



lemma busy_listening_eq:
  "busy_listening =
   \<lparr>systemPrompt = ''Be kind.'', selectedVoiceId = ''21m00Tcm4TlvDq8ikWAM'',
    manualMode = True, status = Connected, errorMessage = None,
    isUserSpeaking = True, isAiSpeaking = False, streamRef = True,
    wsRef = Some OPEN, audioContextRef = True, playbackContextRef = True,
    processorRef = True, sourceRef = True, currentAudioRef = False,
    currentPlaybackSourceRef = False, transcriptRef = [(User, ''I had'')],
    isProcessingRef = True, isListeningRef = True,
    startRecordingTimeoutRef = None, isAiSpeakingRef = False,
    targetRateRef = 16000, manualBufferRef = [],
    pendingManualCommitRef = False, pendingManualCommitTimeoutRef = None,
    timers = [], nextTimerId = 3, shownTranscript = [(User, ''I had'')],
    interimTranscript = ''Listening...'',
    interviewerRequests = [(''Be kind.'', [(User, ''I had'')])],
    voiceRequests =
    [(''Hello, I am your OpenJournal assistant. How can I help you?'',
    ''21m00Tcm4TlvDq8ikWAM'')],
    wsSent =
    [\<lparr>audio_base_64 =
    createSilentPcmBase64 1024,
    sample_rate = 16000, commit = True\<rparr>],
    startCalls = 2\<rparr>"
  unfolding busy_listening_def commit_pending_eq
  by (simp add: session_defs string_defs)

lemma ack_while_busy_eq:
  "ack_while_busy =
   \<lparr>systemPrompt = ''Be kind.'', selectedVoiceId = ''21m00Tcm4TlvDq8ikWAM'',
    manualMode = True, status = Connected, errorMessage = None,
    isUserSpeaking = True, isAiSpeaking = False, streamRef = False,
    wsRef = None, audioContextRef = False, playbackContextRef = True,
    processorRef = False, sourceRef = False, currentAudioRef = False,
    currentPlaybackSourceRef = False, transcriptRef = [(User, ''I had'')],
    isProcessingRef = True, isListeningRef = False,
    startRecordingTimeoutRef = None, isAiSpeakingRef = False,
    targetRateRef = 16000, manualBufferRef = [],
    pendingManualCommitRef = False, pendingManualCommitTimeoutRef = None,
    timers = [], nextTimerId = 4, shownTranscript = [(User, ''I had'')],
    interimTranscript = ''Listening...'',
    interviewerRequests = [(''Be kind.'', [(User, ''I had'')])],
    voiceRequests =
    [(''Hello, I am your OpenJournal assistant. How can I help you?'',
    ''21m00Tcm4TlvDq8ikWAM'')],
    wsSent =
    [\<lparr>audio_base_64 =
    createSilentPcmBase64 1024,
    sample_rate = 16000, commit = True\<rparr>,
    \<lparr>audio_base_64 =
    createSilentPcmBase64 1024,
    sample_rate = 16000, commit = True\<rparr>],
    startCalls = 2\<rparr>"
  unfolding ack_while_busy_def busy_listening_eq
  by (simp add: session_defs string_defs)

text \<open>
  Claim C10. \<open>processUserInput\<close> on a text that is empty or only whitespace returns the
  session as it was: the transcript is unchanged, no request goes to the interviewer and
  the processing flag is not set. A \<open>committed_transcript\<close> message whose text trims to
  the empty string likewise leaves the whole session as it was, so it keeps listening.
\<close>

theorem empty_finalize_noop:
  "(trim userText = [] \<longrightarrow> processUserInput s userText = s) \<and>
   (trim t = [] \<longrightarrow> ws_onmessage s (Message (Some ''committed_transcript'') (Some t) merr) = s)"
  by (simp add: processUserInput_def ws_onmessage_def)

text \<open>The statement of C10 at the listening session and a text of two spaces.\<close>

theorem empty_finalize_noop_witness:
  "trim ''  '' = [] \<and> processUserInput listening_vad ''  '' = listening_vad \<and>
   ws_onmessage listening_vad (Message (Some ''committed_transcript'') (Some ''  '') None) = listening_vad"
proof -
  have "trim ''  '' = []" by (simp add: string_defs)
  with empty_finalize_noop [of "''  ''" listening_vad "''  ''" None] show ?thesis by simp
qed

subsection \<open>The processing flag\<close>

lemma processUserInput_sets_flag:
  "\<not> isProcessingRef s \<Longrightarrow> trim userText \<noteq> [] \<Longrightarrow> isProcessingRef (processUserInput s userText)"
  by (simp add: processUserInput_def stopRecording_def onTranscriptUpdate_def onInterimTranscript_def Let_def)

lemma processUserInput_noop: "isProcessingRef s \<Longrightarrow> processUserInput s userText = s"
  by (simp add: processUserInput_def)

lemma finalize_all_noop: "isProcessingRef s \<Longrightarrow> finalize_all s texts = s"
  unfolding finalize_all_def by (induction texts) (simp_all add: processUserInput_noop)

lemma isProcessingRef_stopRecording [simp]: "isProcessingRef (stopRecording s) = isProcessingRef s"
  by (simp add: stopRecording_def Let_def)

lemma isProcessingRef_startRecording [simp]: "isProcessingRef (startRecording s) = isProcessingRef s"
  by (simp add: startRecording_def)

lemma isProcessingRef_processUserInput: "isProcessingRef s \<Longrightarrow> isProcessingRef (processUserInput s t)"
  by (simp add: processUserInput_noop)

lemma isProcessingRef_commitManual_timeout:
  "isProcessingRef s \<Longrightarrow> isProcessingRef (commitManual_timeout s)"
  by (simp add: commitManual_timeout_def Let_def processUserInput_noop)

lemma isProcessingRef_ws_onmessage:
  "isProcessingRef s \<Longrightarrow> isProcessingRef (ws_onmessage s d)"
  by (cases d)
     (simp_all add: ws_onmessage_def Let_def processUserInput_noop onInterimTranscript_def
        setErrorMessage_def clearTimeout_def split: option.splits)

lemma isProcessingRef_fire_timer:
  "isProcessingRef s \<Longrightarrow> isProcessingRef (fire_timer s tid)"
  by (simp add: fire_timer_def Let_def isProcessingRef_commitManual_timeout
      startRecordingAfterAI_timeout_def split: option.splits timer_callback.splits)

lemma isProcessingRef_step:
  "isProcessingRef s \<Longrightarrow> \<not> ends_processing e \<Longrightarrow> isProcessingRef (step s e)"
proof (cases e)
  case Connect
  assume "isProcessingRef s"
  then show ?thesis using Connect
    by (simp add: connect_def speak_def speakWithVoiceApi_def startRecordingAfterAI_def
        setTimeout_def setStatus_def setErrorMessage_def Let_def)
next
  case (WsMessage d)
  assume "isProcessingRef s"
  then show ?thesis using WsMessage by (simp add: isProcessingRef_ws_onmessage)
next
  case (TimerFires tid)
  assume "isProcessingRef s"
  then show ?thesis using TimerFires by (simp add: isProcessingRef_fire_timer)
qed (simp_all add: commitManual_def ws_onopen_def ws_onerror_def ws_onclose_def onaudioprocess_def
      start_gotUserMedia_def start_gotScribeToken_def start_rejected_def speakWithVoiceApi_then_def
      speakWithVoiceApi_catch_def source_onended_def audioEl_onended_def audioEl_onerror_def
      speakWithVoiceApi_done_def startRecordingAfterAI_def setTimeout_def setStatus_def
      setErrorMessage_def onInterimTranscript_def Let_def)

lemma resolved_releases: "\<not> isProcessingRef (processUserInput_resolved s n q)"
  by (simp add: processUserInput_resolved_def Let_def)

lemma rejected_releases: "\<not> isProcessingRef (processUserInput_rejected s err)"
  by (simp add: processUserInput_rejected_def Let_def)

lemma resolved_speaking:
  "trim q \<noteq> [] \<Longrightarrow> isAiSpeakingRef (processUserInput_resolved s n q)"
  by (simp add: processUserInput_resolved_def speak_def speakWithVoiceApi_def setErrorMessage_def
      onTranscriptUpdate_def Let_def)

lemma interviewerRequests_stopRecording [simp]:
  "interviewerRequests (stopRecording s) = interviewerRequests s"
  by (simp add: stopRecording_def Let_def)

lemma interviewerRequests_startRecording [simp]:
  "interviewerRequests (startRecording s) = interviewerRequests s"
  by (simp add: startRecording_def)

lemma interviewerRequests_commitManual_timeout:
  "isProcessingRef s \<Longrightarrow> interviewerRequests (commitManual_timeout s) = interviewerRequests s"
  by (simp add: commitManual_timeout_def Let_def processUserInput_noop)

lemma interviewerRequests_ws_onmessage:
  "isProcessingRef s \<Longrightarrow> interviewerRequests (ws_onmessage s d) = interviewerRequests s"
  by (cases d)
     (simp_all add: ws_onmessage_def Let_def processUserInput_noop onInterimTranscript_def
        setErrorMessage_def clearTimeout_def split: option.splits)

lemma interviewerRequests_fire_timer:
  "isProcessingRef s \<Longrightarrow> interviewerRequests (fire_timer s tid) = interviewerRequests s"
  by (simp add: fire_timer_def Let_def interviewerRequests_commitManual_timeout
      startRecordingAfterAI_timeout_def split: option.splits timer_callback.splits)

lemma interviewerRequests_step:
  "isProcessingRef s \<Longrightarrow> interviewerRequests (step s e) = interviewerRequests s"
proof (cases e)
  case (WsMessage d)
  assume "isProcessingRef s"
  then show ?thesis using WsMessage by (simp add: interviewerRequests_ws_onmessage)
next
  case (TimerFires tid)
  assume "isProcessingRef s"
  then show ?thesis using TimerFires by (simp add: interviewerRequests_fire_timer)
qed (simp_all add: connect_def disconnect_def commitManual_def ws_onopen_def ws_onerror_def
      ws_onclose_def onaudioprocess_def start_gotUserMedia_def start_gotScribeToken_def
      start_rejected_def speakWithVoiceApi_then_def speakWithVoiceApi_catch_def source_onended_def
      audioEl_onended_def audioEl_onerror_def speakWithVoiceApi_done_def startRecordingAfterAI_def
      processUserInput_resolved_def processUserInput_rejected_def speak_def speakWithVoiceApi_def
      setTimeout_def clearTimeout_def setStatus_def setErrorMessage_def onInterimTranscript_def
      onTranscriptUpdate_def Let_def split: option.splits)

lemma run_Cons: "run s (e # es) = run (step s e) es"
  by (simp add: run_def)

lemma run_Nil: "run s [] = s"
  by (simp add: run_def)

lemma processing_run:
  "isProcessingRef s \<Longrightarrow> list_all (\<lambda>e. \<not> ends_processing e) es \<Longrightarrow>
   isProcessingRef (run s es) \<and> interviewerRequests (run s es) = interviewerRequests s"
proof (induction es arbitrary: s)
  case Nil
  then show ?case by (simp add: run_Nil)
next
  case (Cons e es)
  then have p: "isProcessingRef (step s e)" by (simp add: isProcessingRef_step)
  from Cons.prems have "list_all (\<lambda>e. \<not> ends_processing e) es" by simp
  with p Cons.IH have "isProcessingRef (run (step s e) es) \<and>
    interviewerRequests (run (step s e) es) = interviewerRequests (step s e)" by blast
  with Cons.prems(1) show ?case by (simp add: run_Cons interviewerRequests_step)
qed

lemma transcriptRef_ws_onmessage:
  "isProcessingRef s \<Longrightarrow> transcriptRef (ws_onmessage s d) = transcriptRef s"
  by (cases d)
     (simp_all add: ws_onmessage_def Let_def processUserInput_noop onInterimTranscript_def
        setErrorMessage_def clearTimeout_def stopRecording_def startRecording_def split: option.splits)

lemma transcriptRef_commitManual_timeout:
  "isProcessingRef s \<Longrightarrow> transcriptRef (commitManual_timeout s) = transcriptRef s"
  by (simp add: commitManual_timeout_def Let_def processUserInput_noop stopRecording_def)

lemma transcriptRef_fire_timer:
  "isProcessingRef s \<Longrightarrow> transcriptRef (fire_timer s tid) = transcriptRef s"
  by (simp add: fire_timer_def Let_def transcriptRef_commitManual_timeout
      startRecordingAfterAI_timeout_def startRecording_def split: option.splits timer_callback.splits)

lemma transcriptRef_step:
  "isProcessingRef s \<Longrightarrow> \<not> ends_processing e \<Longrightarrow> e \<noteq> Connect \<Longrightarrow>
   transcriptRef (step s e) = transcriptRef s"
proof (cases e)
  case (WsMessage d)
  assume "isProcessingRef s"
  then show ?thesis using WsMessage by (simp add: transcriptRef_ws_onmessage)
next
  case (TimerFires tid)
  assume "isProcessingRef s"
  then show ?thesis using TimerFires by (simp add: transcriptRef_fire_timer)
qed (simp_all add: commitManual_def ws_onopen_def ws_onerror_def
      ws_onclose_def onaudioprocess_def start_gotUserMedia_def start_gotScribeToken_def
      start_rejected_def speakWithVoiceApi_then_def speakWithVoiceApi_catch_def source_onended_def
      audioEl_onended_def audioEl_onerror_def speakWithVoiceApi_done_def startRecordingAfterAI_def
      setTimeout_def setStatus_def setErrorMessage_def onInterimTranscript_def Let_def)

lemma processing_run_transcript:
  "isProcessingRef s \<Longrightarrow> list_all (\<lambda>e. \<not> ends_processing e) es \<Longrightarrow>
   list_all (\<lambda>e. e \<noteq> Connect) es \<Longrightarrow> transcriptRef (run s es) = transcriptRef s"
proof (induction es arbitrary: s)
  case Nil
  then show ?case by (simp add: run_Nil)
next
  case (Cons e es)
  then have p: "isProcessingRef (step s e)" by (simp add: isProcessingRef_step)
  from Cons.prems have "list_all (\<lambda>e. \<not> ends_processing e) es" "list_all (\<lambda>e. e \<noteq> Connect) es"
    by simp_all
  with p Cons.IH have "transcriptRef (run (step s e) es) = transcriptRef (step s e)" by blast
  with Cons.prems show ?case by (simp add: run_Cons transcriptRef_step)
qed

subsection \<open>The speaking flag\<close>

lemma isAiSpeakingRef_stopRecording [simp]: "isAiSpeakingRef (stopRecording s) = isAiSpeakingRef s"
  by (simp add: stopRecording_def Let_def)

lemma isAiSpeakingRef_startRecording [simp]: "isAiSpeakingRef (startRecording s) = isAiSpeakingRef s"
  by (simp add: startRecording_def)

lemma isAiSpeakingRef_processUserInput [simp]:
  "isAiSpeakingRef (processUserInput s t) = isAiSpeakingRef s"
  by (simp add: processUserInput_def onTranscriptUpdate_def onInterimTranscript_def Let_def)

lemma isAiSpeakingRef_speak: "isAiSpeakingRef s \<Longrightarrow> isAiSpeakingRef (speak s t)"
  by (simp add: speak_def speakWithVoiceApi_def setErrorMessage_def Let_def)

lemma isAiSpeakingRef_commitManual_timeout:
  "isAiSpeakingRef s \<Longrightarrow> isAiSpeakingRef (commitManual_timeout s)"
  by (simp add: commitManual_timeout_def Let_def)

lemma speaking_discards:
  "isAiSpeakingRef s \<Longrightarrow>
   ws_onmessage s (Message (Some ''committed_transcript'') mtext merr) = s \<and> commitManual s = s"
  by (simp add: ws_onmessage_def commitManual_def Let_def)

lemma isAiSpeakingRef_ws_onmessage:
  "isAiSpeakingRef s \<Longrightarrow> isAiSpeakingRef (ws_onmessage s d)"
  by (cases d)
     (simp_all add: ws_onmessage_def Let_def onInterimTranscript_def setErrorMessage_def)

lemma isAiSpeakingRef_fire_timer:
  "isAiSpeakingRef s \<Longrightarrow> isAiSpeakingRef (fire_timer s tid)"
  by (simp add: fire_timer_def Let_def isAiSpeakingRef_commitManual_timeout
      startRecordingAfterAI_timeout_def split: option.splits timer_callback.splits)

lemma isAiSpeakingRef_step:
  "isAiSpeakingRef s \<Longrightarrow> \<not> ends_speaking e \<Longrightarrow> isAiSpeakingRef (step s e)"
proof (cases e)
  case Connect
  then show ?thesis
    by (simp add: connect_def speak_def speakWithVoiceApi_def setErrorMessage_def setStatus_def
        string_defs Let_def)
next
  case (WsMessage d)
  assume "isAiSpeakingRef s"
  then show ?thesis using WsMessage by (simp add: isAiSpeakingRef_ws_onmessage)
next
  case (TimerFires tid)
  assume "isAiSpeakingRef s"
  then show ?thesis using TimerFires by (simp add: isAiSpeakingRef_fire_timer)
next
  case (InterviewerResolved n q)
  assume a: "isAiSpeakingRef s"
  have "isAiSpeakingRef (speak (onTranscriptUpdate (s\<lparr>transcriptRef := n @ [(Ai, q)]\<rparr>) (n @ [(Ai, q)])) q)"
    using a by (intro isAiSpeakingRef_speak) (simp add: onTranscriptUpdate_def)
  then show ?thesis using InterviewerResolved by (simp add: processUserInput_resolved_def Let_def)
qed (simp_all add: commitManual_def ws_onopen_def ws_onerror_def ws_onclose_def onaudioprocess_def
      start_gotUserMedia_def start_gotScribeToken_def start_rejected_def speakWithVoiceApi_then_def
      processUserInput_rejected_def setTimeout_def setStatus_def setErrorMessage_def
      onInterimTranscript_def Let_def)

lemma speaking_run:
  "isAiSpeakingRef s \<Longrightarrow> list_all (\<lambda>e. \<not> ends_speaking e) es \<Longrightarrow> isAiSpeakingRef (run s es)"
proof (induction es arbitrary: s)
  case Nil
  then show ?case by (simp add: run_Nil)
next
  case (Cons e es)
  then have "isAiSpeakingRef (step s e)" by (simp add: isAiSpeakingRef_step)
  with Cons show ?case by (simp add: run_Cons)
qed

text \<open>
  Claim C1, as amended. \<open>processUserInput\<close> sets the processing flag when it finalizes a
  turn (text that is not blank, flag not yet set). While the flag is set, every event other
  than the arrival of an interviewer's reply or failure (of this turn's request or of an
  earlier one still in flight) and \<open>disconnect\<close> leaves it set and issues no request to
  the interviewer, and, \<open>connect\<close> apart, leaves the transcript as it was; a call of
  \<open>processUserInput\<close> itself, any number of times, leaves the whole session as it was.
  The flag is released as soon as the reply has been handed to speech synthesis, or the
  request failed, not when the audio ends. For a reply that is not blank
  \<open>isAiSpeakingRef\<close> is set at that moment; it stays set under every event other than the
  end of playback, a playback error, the failure of the request for the audio and
  \<open>disconnect\<close>, and while it is set a \<open>committed_transcript\<close> message and a commit
  request leave the whole session as it was.
\<close>

theorem processing_flag_span:
  "(\<not> isProcessingRef s \<and> trim userText \<noteq> [] \<longrightarrow> isProcessingRef (processUserInput s userText)) \<and>
   (isProcessingRef p \<and> list_all (\<lambda>e. \<not> ends_processing e) es \<longrightarrow>
      isProcessingRef (run p es) \<and> interviewerRequests (run p es) = interviewerRequests p \<and>
      (list_all (\<lambda>e. e \<noteq> Connect) es \<longrightarrow> transcriptRef (run p es) = transcriptRef p)) \<and>
   (isProcessingRef p \<longrightarrow> finalize_all p texts = p) \<and>
   \<not> isProcessingRef (processUserInput_resolved p nextWithUser question) \<and>
   (trim question \<noteq> [] \<longrightarrow> isAiSpeakingRef (processUserInput_resolved p nextWithUser question)) \<and>
   \<not> isProcessingRef (processUserInput_rejected p err) \<and>
   (isAiSpeakingRef q \<and> list_all (\<lambda>e. \<not> ends_speaking e) es' \<longrightarrow> isAiSpeakingRef (run q es')) \<and>
   (isAiSpeakingRef q \<longrightarrow>
      ws_onmessage q (Message (Some ''committed_transcript'') mtext merr) = q \<and>
      commitManual q = q)"
  using processing_run [of p es] processing_run_transcript [of p es] speaking_run [of q es']
    speaking_discards [of q mtext merr]
  by (simp add: processUserInput_sets_flag finalize_all_noop resolved_releases
      resolved_speaking rejected_releases)

lemma listening_vad_fields:
  "\<not> isProcessingRef listening_vad" "isListeningRef listening_vad" "wsRef listening_vad = Some OPEN"
  "\<not> isAiSpeakingRef listening_vad" "startCalls listening_vad = 1" "status listening_vad = Connected"
  "transcriptRef listening_vad = []" "interviewerRequests listening_vad = []"
  by (simp_all add: listening_vad_eq)

lemma trim_hard_day: "trim ''I had a hard day'' = ''I had a hard day''"
  by (simp add: string_defs)

lemma trim_question: "trim ''What made it hard?'' = ''What made it hard?''"
  by (simp add: string_defs)

text \<open>The statement of C1 as amended, at the listening session and the turn
  \<open>I had a hard day\<close>, and at the session that is speaking the reply.\<close>

theorem processing_flag_span_witness:
  "\<not> isProcessingRef listening_vad \<and> isProcessingRef turn_processing \<and>
   isProcessingRef (run turn_processing [CommitManual, TimerFires 1, WsError]) \<and>
   interviewerRequests (run turn_processing [CommitManual, TimerFires 1, WsError]) =
     interviewerRequests turn_processing \<and>
   transcriptRef (run turn_processing [CommitManual, TimerFires 1, WsError]) =
     transcriptRef turn_processing \<and>
   finalize_all turn_processing [''again'', ''and again''] = turn_processing \<and>
   isAiSpeakingRef (processUserInput_resolved turn_processing [(User, ''I had a hard day'')] ''What made it hard?'') \<and>
   isAiSpeakingRef reply_playing \<and>
   isAiSpeakingRef (run reply_playing [VoiceResolved False False, CommitManual, TimerFires 1]) \<and>
   ws_onmessage reply_playing (Message (Some ''committed_transcript'') (Some ''made it hard'') None) =
     reply_playing \<and>
   commitManual reply_playing = reply_playing"
proof -
  have r: "isAiSpeakingRef reply_playing" by (simp add: reply_playing_eq)
  from processing_flag_span [of listening_vad "''I had a hard day''" turn_processing
      "[CommitManual, TimerFires 1, WsError]" "[''again'', ''and again'']"
      "[(User, ''I had a hard day'')]" "''What made it hard?''" None reply_playing
      "[VoiceResolved False False, CommitManual, TimerFires 1]" "Some ''made it hard''" None]
    listening_vad_fields(1) r
  show ?thesis by (simp add: turn_processing_def trim_hard_day trim_question)
qed

lemma reply_playing_fields:
  "isAiSpeakingRef reply_playing" "\<not> isProcessingRef reply_playing"
  "\<not> currentPlaybackSourceRef reply_playing" "\<not> currentAudioRef reply_playing"
  "interviewerRequests reply_playing = [(''Be kind.'', [(User, ''I had a hard day'')])]"
  "status reply_playing = Connected" "timers reply_playing = []" "nextTimerId reply_playing = 2"
  "startCalls reply_playing = 1" "\<not> isListeningRef reply_playing"
  by (simp_all add: reply_playing_eq)

text \<open>
  Claim C1 as stated fails: once the reply is appended and synthesis is requested, with
  the assistant's audio not yet playing, the processing flag is already released, and
  \<open>processUserInput\<close> then starts a second pipeline. Nor is every finalize event a no-op
  while the flag is set: in a session that is listening again while a turn is in process
  (the socket was reopened after an \<open>auth_error\<close>), a commit request followed by a
  \<open>committed_transcript\<close> message stops the recording and closes the socket, although
  the transcript is unchanged.
\<close>

theorem processing_flag_released_before_playback_counterexample:
  "isAiSpeakingRef reply_playing \<and> \<not> currentPlaybackSourceRef reply_playing \<and>
   \<not> currentAudioRef reply_playing \<and> \<not> isProcessingRef reply_playing \<and>
   length (interviewerRequests reply_playing) = 1 \<and>
   length (interviewerRequests (processUserInput reply_playing ''And then it rained'')) = 2 \<and>
   isProcessingRef busy_listening \<and> isListeningRef busy_listening \<and>
   wsRef busy_listening = Some OPEN \<and>
   \<not> isListeningRef ack_while_busy \<and> wsRef ack_while_busy = None \<and>
   transcriptRef ack_while_busy = transcriptRef busy_listening \<and>
   ack_while_busy \<noteq> busy_listening"
proof -
  have "isListeningRef ack_while_busy \<noteq> isListeningRef busy_listening"
    by (simp add: ack_while_busy_eq busy_listening_eq)
  then have "ack_while_busy \<noteq> busy_listening" by metis
  then show ?thesis
    by (simp add: reply_playing_fields processUserInput_def Let_def onTranscriptUpdate_def
        onInterimTranscript_def string_defs ack_while_busy_eq busy_listening_eq)
qed

subsection \<open>Manual commit\<close>

















subsection \<open>Manual commit: the timeout\<close>







subsection \<open>Failures of the remote calls\<close>

text \<open>
  Claim C5, as amended. When the request to the interviewer fails, the status becomes
  \<open>Error\<close>, the message is set, the processing flag is released and nothing else changes:
  no timer is set and listening is not resumed. On success the flag is released as well.
  When the request for speech fails, the message is set and the speaking flags are
  cleared, but the status is left as it was and the timer that restarts listening is set.
\<close>

theorem remote_failure_handling:
  "(let s' = processUserInput_rejected s err
    in s' = s\<lparr>errorMessage := Some (case err of Some m \<Rightarrow> m | None \<Rightarrow> ''API error''),
              status := Error, isProcessingRef := False\<rparr>) \<and>
   \<not> isProcessingRef (processUserInput_resolved s nextWithUser question) \<and>
   (let s' = speakWithVoiceApi_catch startRecordingAfterAI setErrorMessage s verr
    in s' = s\<lparr>errorMessage := Some (case verr of Some m \<Rightarrow> m | None \<Rightarrow> ''Voice API failed''),
              isAiSpeakingRef := False, isAiSpeaking := False,
              timers := timers s @ [(nextTimerId s, StartRecordingTimeout)],
              nextTimerId := Suc (nextTimerId s),
              startRecordingTimeoutRef := Some (nextTimerId s)\<rparr> \<and>
       status s' = status s \<and> isProcessingRef s' = isProcessingRef s)"
  by (simp add: processUserInput_rejected_def processUserInput_resolved_def
      speakWithVoiceApi_catch_def speakWithVoiceApi_done_def startRecordingAfterAI_def
      setTimeout_def setErrorMessage_def setStatus_def Let_def)

text \<open>The statement of C5 as amended, at the turn in process and at the reply being
  synthesized.\<close>

theorem remote_failure_handling_witness:
  "(let s' = processUserInput_rejected turn_processing (Some ''Interviewer API failed (500)'')
    in status s' = Error \<and> errorMessage s' = Some ''Interviewer API failed (500)'' \<and>
       \<not> isProcessingRef s' \<and> \<not> isListeningRef s' \<and> timers s' = [] \<and> startCalls s' = 1) \<and>
   (let s' = speakWithVoiceApi_catch startRecordingAfterAI setErrorMessage reply_playing None
    in status s' = Connected \<and> errorMessage s' = Some ''Voice API failed'' \<and>
       \<not> isAiSpeakingRef s' \<and> timers s' = [(2, StartRecordingTimeout)])"
  using remote_failure_handling [of turn_processing "Some ''Interviewer API failed (500)''"
      "[]" "[]" None]
    remote_failure_handling [of reply_playing None "[]" "[]" None]
  by (simp add: Let_def turn_processing_eq reply_playing_eq)

lemma voice_failed_fields:
  "status voice_failed = Connected" "errorMessage voice_failed = Some ''Voice API failed (500)''"
  "\<not> isProcessingRef voice_failed" "timers voice_failed = [(2, StartRecordingTimeout)]"
  "startCalls voice_failed = 1" "\<not> isListeningRef voice_failed"
  by (simp_all add: voice_failed_eq)

text \<open>
  Claim C5 as stated fails for speech synthesis: after the request for the reply's audio
  failed, the status is still \<open>Connected\<close>, and the timer that is set restarts listening
  when it fires.
\<close>

theorem synthesis_failure_resumes_counterexample:
  "status voice_failed = Connected \<and> status voice_failed \<noteq> Error \<and>
   errorMessage voice_failed = Some ''Voice API failed (500)'' \<and>
   timers voice_failed = [(2, StartRecordingTimeout)] \<and>
   startCalls voice_failed = 1 \<and> startCalls (fire_timer voice_failed 2) = 2"
  by (simp add: voice_failed_fields fire_timer_def startRecordingAfterAI_timeout_def
      startRecording_def Let_def)

subsection \<open>Errors of the transcription socket\<close>

text \<open>
  Claim C6, as amended. On each \<open>error\<close>, \<open>auth_error\<close> or \<open>quota_exceeded\<close> message the
  session sets the message, tears the recording down and calls \<open>startRecording\<close> once,
  which requests the microphone again unless a turn is in process; the status is not
  changed, and nothing counts or bounds these attempts. \<open>ws.onerror\<close> sets the message
  and the status \<open>Error\<close> and does nothing else.
\<close>

theorem channel_error_recovery:
  "(type = ''error'' \<or> type = ''auth_error'' \<or> type = ''quota_exceeded'' \<longrightarrow>
      (let err = (case merr of Some e \<Rightarrow> e | None \<Rightarrow> ''Transcription error'');
           s' = ws_onmessage s (Message (Some type) mtext merr)
       in s' = startRecording (stopRecording (setErrorMessage s (Some err))) \<and>
          status s' = status s \<and> errorMessage s' = Some err \<and>
          startCalls s' = (if isProcessingRef s then startCalls s else Suc (startCalls s)) \<and>
          \<not> isListeningRef s' \<and> wsRef s' \<noteq> Some OPEN)) \<and>
   ws_onerror s =
     s\<lparr>errorMessage := Some ''Live transcription connection failed'', status := Error\<rparr>"
  by (auto simp add: ws_onmessage_def ws_onerror_def startRecording_def stopRecording_def
      setErrorMessage_def setStatus_def Let_def)

text \<open>The statement of C6 as amended, at the listening session and an
  \<open>auth_error\<close> message.\<close>

theorem channel_error_recovery_witness:
  "(let s' = ws_onmessage listening_vad (Message (Some ''auth_error'') None None)
    in status s' = Connected \<and> errorMessage s' = Some ''Transcription error'' \<and>
       startCalls s' = 2 \<and> \<not> isListeningRef s')"
  using channel_error_recovery [of "''auth_error''" None listening_vad None]
  by (simp add: Let_def listening_vad_fields setErrorMessage_def stopRecording_def startRecording_def)

text \<open>
  Claim C6 as stated fails: after two \<open>quota_exceeded\<close> messages, the second on the
  socket that the first retry opened, the session has requested the microphone a third
  time (two retries), and its status is \<open>Connected\<close>, not \<open>Error\<close>.
\<close>

theorem channel_error_retries_unbounded_counterexample:
  "startCalls listening_vad = 1 \<and> startCalls quota_exceeded_twice = 3 \<and>
   status quota_exceeded_twice = Connected \<and> status quota_exceeded_twice \<noteq> Error"
  by (simp add: quota_exceeded_twice_eq listening_vad_eq)

subsection \<open>Invariants of the sessions that runs reach\<close>

lemma timers_fresh_filter:
  "list_all (\<lambda>t. fst t < n) xs \<Longrightarrow> list_all (\<lambda>t. fst t < n) (filter P xs)"
  by (induction xs) auto

lemma timers_fresh_mono:
  "list_all (\<lambda>t. fst t < (n::nat)) xs \<Longrightarrow> list_all (\<lambda>t. fst t < Suc n) xs"
  by (induction xs) auto

lemma inv_stopRecording: "session_inv s \<Longrightarrow> session_inv (stopRecording s)"
  by (simp add: session_inv_def timers_fresh_def stopRecording_def Let_def)

lemma inv_startRecording: "session_inv s \<Longrightarrow> session_inv (startRecording s)"
  by (simp add: session_inv_def timers_fresh_def startRecording_def)

lemma inv_processUserInput: "session_inv s \<Longrightarrow> session_inv (processUserInput s t)"
  by (simp add: session_inv_def timers_fresh_def processUserInput_def stopRecording_def
      onTranscriptUpdate_def onInterimTranscript_def Let_def)

lemma inv_startRecordingAfterAI: "session_inv s \<Longrightarrow> session_inv (startRecordingAfterAI s)"
  by (simp add: session_inv_def timers_fresh_def startRecordingAfterAI_def setTimeout_def
      timers_fresh_mono)

lemma inv_done:
  "session_inv s \<Longrightarrow>
   session_inv (speakWithVoiceApi_done startRecordingAfterAI (s\<lparr>isAiSpeaking := b, isAiSpeakingRef := c\<rparr>))"
  by (simp add: session_inv_def timers_fresh_def speakWithVoiceApi_done_def
      startRecordingAfterAI_def setTimeout_def timers_fresh_mono)

lemma inv_speak: "session_inv s \<Longrightarrow> session_inv (speak s t)"
  by (simp add: session_inv_def timers_fresh_def speak_def speakWithVoiceApi_def startRecording_def
      startRecordingAfterAI_def setTimeout_def setErrorMessage_def timers_fresh_mono Let_def)

lemma inv_commitManual_timeout: "session_inv s \<Longrightarrow> session_inv (commitManual_timeout s)"
proof -
  assume a: "session_inv s"
  have "session_inv (stopRecording (s\<lparr>pendingManualCommitTimeoutRef := None,
          pendingManualCommitRef := False, manualBufferRef := []\<rparr>))"
    using a by (simp add: session_inv_def timers_fresh_def stopRecording_def Let_def)
  moreover have "session_inv (s\<lparr>pendingManualCommitTimeoutRef := None\<rparr>)"
    using a by (simp add: session_inv_def timers_fresh_def)
  ultimately show ?thesis
    by (simp add: commitManual_timeout_def Let_def inv_processUserInput)
qed

lemma inv_ws_onmessage: "session_inv s \<Longrightarrow> session_inv (ws_onmessage s d)"
proof (cases d)
  case Unparseable
  assume "session_inv s"
  then show ?thesis using Unparseable by (simp add: ws_onmessage_def)
next
  case (Message type mtext merr)
  assume a: "session_inv s"
  show ?thesis
  proof (cases mtext)
    case None
    then show ?thesis using a Message
      by (simp add: session_inv_def timers_fresh_def ws_onmessage_def stopRecording_def
          startRecording_def setErrorMessage_def Let_def)
  next
    case (Some x)
    show ?thesis
    proof (cases "pendingManualCommitTimeoutRef s")
      case None
      then show ?thesis using a Message Some
        by (simp add: session_inv_def timers_fresh_def ws_onmessage_def processUserInput_def
            stopRecording_def startRecording_def setErrorMessage_def onInterimTranscript_def
            onTranscriptUpdate_def fragment_trim Let_def)
    next
      case (Some tid)
      then show ?thesis using a Message \<open>mtext = Some x\<close>
        by (simp add: session_inv_def timers_fresh_def ws_onmessage_def processUserInput_def
            stopRecording_def startRecording_def setErrorMessage_def onInterimTranscript_def
            onTranscriptUpdate_def clearTimeout_def fragment_trim timers_fresh_filter Let_def)
    qed
  qed
qed

lemma inv_fire_timer: "session_inv s \<Longrightarrow> session_inv (fire_timer s tid)"
proof -
  assume a: "session_inv s"
  have f: "session_inv (s\<lparr>timers := filter (\<lambda>t. fst t \<noteq> tid) (timers s)\<rparr>)"
    using a by (simp add: session_inv_def timers_fresh_def timers_fresh_filter)
  have r: "\<And>u. session_inv u \<Longrightarrow> session_inv (startRecordingAfterAI_timeout u)"
    by (simp add: session_inv_def timers_fresh_def startRecordingAfterAI_timeout_def startRecording_def)
  show ?thesis using a f
    by (simp add: fire_timer_def Let_def inv_commitManual_timeout r
        split: option.splits timer_callback.splits)
qed

lemma inv_step: "session_inv s \<Longrightarrow> session_inv (step s e)"
proof (cases e)
  case Connect
  assume a: "session_inv s"
  have "session_inv (setStatus (setErrorMessage (setStatus s Connecting) None
      \<lparr>transcriptRef := [], playbackContextRef := True\<rparr>) Connected)"
    using a by (simp add: session_inv_def timers_fresh_def setStatus_def setErrorMessage_def)
  then show ?thesis using Connect by (simp add: connect_def Let_def inv_speak)
next
  case Disconnect
  assume "session_inv s"
  then show ?thesis using Disconnect
    by (simp add: session_inv_def timers_fresh_def disconnect_def stopRecording_def clearTimeout_def
        setStatus_def setErrorMessage_def timers_fresh_filter Let_def split: option.splits)
next
  case CommitManual
  assume "session_inv s"
  then show ?thesis using CommitManual
    by (simp add: session_inv_def timers_fresh_def commitManual_def setTimeout_def
        timers_fresh_mono Let_def)
next
  case (WsMessage d)
  assume "session_inv s"
  then show ?thesis using WsMessage by (simp add: inv_ws_onmessage)
next
  case (TimerFires tid)
  assume "session_inv s"
  then show ?thesis using TimerFires by (simp add: inv_fire_timer)
next
  case (InterviewerResolved n q)
  assume a: "session_inv s"
  have "session_inv (onTranscriptUpdate (s\<lparr>transcriptRef := n @ [(Ai, q)]\<rparr>) (n @ [(Ai, q)]))"
    using a by (simp add: session_inv_def timers_fresh_def onTranscriptUpdate_def)
  then have "session_inv (speak (onTranscriptUpdate (s\<lparr>transcriptRef := n @ [(Ai, q)]\<rparr>) (n @ [(Ai, q)])) q)"
    by (rule inv_speak)
  then show ?thesis using InterviewerResolved
    by (simp add: processUserInput_resolved_def Let_def session_inv_def timers_fresh_def)
next
  case (VoiceRejected err)
  assume a: "session_inv s"
  then show ?thesis using VoiceRejected
    by (simp add: session_inv_def timers_fresh_def speakWithVoiceApi_catch_def
        speakWithVoiceApi_done_def startRecordingAfterAI_def setTimeout_def setErrorMessage_def
        timers_fresh_mono)
next
  case SourceEnded
  assume a: "session_inv s"
  then show ?thesis using SourceEnded
    by (simp add: session_inv_def timers_fresh_def source_onended_def
        speakWithVoiceApi_done_def startRecordingAfterAI_def setTimeout_def timers_fresh_mono)
next
  case AudioEnded
  assume a: "session_inv s"
  then show ?thesis using AudioEnded
    by (simp add: session_inv_def timers_fresh_def audioEl_onended_def
        speakWithVoiceApi_done_def startRecordingAfterAI_def setTimeout_def timers_fresh_mono)
next
  case AudioError
  assume a: "session_inv s"
  then show ?thesis using AudioError
    by (simp add: session_inv_def timers_fresh_def audioEl_onerror_def setErrorMessage_def
        speakWithVoiceApi_done_def startRecordingAfterAI_def setTimeout_def timers_fresh_mono)
qed (simp_all add: session_inv_def timers_fresh_def ws_onopen_def ws_onerror_def ws_onclose_def
      onaudioprocess_def start_gotUserMedia_def start_gotScribeToken_def start_rejected_def
      speakWithVoiceApi_then_def processUserInput_rejected_def setStatus_def setErrorMessage_def
      onInterimTranscript_def Let_def)

lemma inv_initial: "session_inv (initial_session p v m)"
  by (simp add: session_inv_def timers_fresh_def initial_session_def)

lemma inv_run: "session_inv s \<Longrightarrow> session_inv (run s es)"
  by (induction es arbitrary: s) (simp_all add: run_Nil run_Cons inv_step)

lemma reachable_inv: "session_inv (run (initial_session p v m) es)"
  by (rule inv_run [OF inv_initial])

lemma reachable_hypotheses:
  "(\<forall>f\<in>set (manualBufferRef (run (initial_session p v m) es)). fragment f) \<and>
   timers_fresh (run (initial_session p v m) es)"
  using reachable_inv [of p v m es] by (simp add: session_inv_def list_all_iff)

subsection \<open>The guard against the session's own voice\<close>

text \<open>
  Claim C2. While \<open>isAiSpeakingRef\<close> is set, a \<open>committed_transcript\<close> message (whatever
  its text, in automatic and in manual mode) and a manual commit request leave the whole
  session as it was: no turn starts, the transcript keeps its length, nothing is added to
  the manual buffer and no commit chunk is sent. The ref is set whenever the state
  \<open>isAiSpeaking\<close> is, in every session that events lead to from the initial one.
\<close>

theorem self_echo_guard:
  "(isAiSpeakingRef s \<longrightarrow>
      ws_onmessage s (Message (Some ''committed_transcript'') mtext merr) = s \<and>
      commitManual s = s) \<and>
   (isAiSpeaking (run (initial_session p v m) es) \<longrightarrow>
      isAiSpeakingRef (run (initial_session p v m) es))"
  using reachable_inv [of p v m es]
  by (simp add: ws_onmessage_def commitManual_def session_inv_def Let_def)

text \<open>The statement of C2 at the session that is speaking its greeting.\<close>

theorem self_echo_guard_witness:
  "isAiSpeaking greeting_playing \<and> isAiSpeakingRef greeting_playing \<and>
   ws_onmessage greeting_playing (Message (Some ''committed_transcript'') (Some ''Hello, I am'') None) =
     greeting_playing \<and>
   commitManual greeting_playing = greeting_playing"
proof -
  have g: "isAiSpeaking greeting_playing" by (simp add: greeting_playing_eq)
  from self_echo_guard [of greeting_playing "Some ''Hello, I am''" None "''Be kind.''"
      "''21m00Tcm4TlvDq8ikWAM''" False "[Connect]"] g
  show ?thesis by (simp add: greeting_playing_def)
qed

section \<open>Properties of the backend endpoints\<close>

lemmas handler_defs =
  handler_def required_key_def interviewer_POST_def reformat_POST_def voice_POST_def
  transcribe_POST_def scribe_token_GET_def voices_GET_def jsonResponse_def is_error_body_def
  Let_def

text \<open>
  Claim C9, as amended. When the credential an endpoint needs is not configured, every
  endpoint but \<open>/api/voices\<close> answers with status 500 and a body that has an error
  field; \<open>/api/voices\<close> answers with status 200 and the built-in list of voices.
\<close>

theorem missing_credential_response:
  "\<not> configured (required_key ep e) \<Longrightarrow>
     (ep \<noteq> Voices \<longrightarrow>
        status_code (handler ep e withKey upstream) = 500 \<and>
        is_error_body (body (handler ep e withKey upstream))) \<and>
     (ep = Voices \<longrightarrow>
        handler ep e withKey upstream = jsonResponse (VoicesBody FALLBACK_VOICES) 200)"
  by (cases ep) (simp_all add: handler_defs)

lemma unconfigured_keys:
  "\<not> configured (required_key ep unconfigured)"
  by (cases ep) (simp_all add: required_key_def unconfigured_def configured_def)

text \<open>The statement of C9 as amended, in an environment with no credential.\<close>

theorem missing_credential_response_witness:
  "handler Interviewer unconfigured unreached upstream_down =
     \<lparr>status_code = 500, body = ErrorBody ''OPENROUTER_API_KEY is not configured''\<rparr> \<and>
   status_code (handler ScribeToken unconfigured unreached upstream_down) = 500 \<and>
   is_error_body (body (handler ScribeToken unconfigured unreached upstream_down)) \<and>
   status_code (handler Voices unconfigured unreached upstream_down) = 200"
  using missing_credential_response [OF unconfigured_keys, of Interviewer unreached upstream_down]
    missing_credential_response [OF unconfigured_keys, of ScribeToken unreached upstream_down]
    missing_credential_response [OF unconfigured_keys, of Voices unreached upstream_down]
  by (simp add: handler_defs unconfigured_def configured_def)

text \<open>
  Claim C9 as stated fails for \<open>/api/voices\<close>: with no credential it answers 200 with
  the built-in list, and its body has no error field.
\<close>

theorem voices_without_credential_counterexample:
  "\<not> configured (required_key Voices unconfigured) \<and>
   status_code (voices_GET unconfigured upstream_down) = 200 \<and>
   status_code (voices_GET unconfigured upstream_down) \<noteq> 500 \<and>
   body (voices_GET unconfigured upstream_down) = VoicesBody FALLBACK_VOICES \<and>
   \<not> is_error_body (body (voices_GET unconfigured upstream_down))"
  by (simp add: handler_defs unconfigured_def configured_def)

end
